theory Spec2Isabelle
  imports Main "HOL-Library.Sublist"
begin

section \<open>Strings of the platform\<close>

text \<open>
  A JavaScript string is a sequence of code units. The model writes it as a \<^typ>\<open>string\<close>,
  one \<^typ>\<open>char\<close> per code unit, which covers the code units \<open>0x00\<close> to \<open>0xFF\<close>;
  \<open>length\<close> is the \<open>.length\<close> of the source and \<open>take\<close> its \<open>substring(0, n)\<close>.
  An optional property (\<open>undefined\<close> or \<open>null\<close>) is \<open>None\<close>.
\<close>

definition truthy :: "string option \<Rightarrow> bool" where
  \<comment> \<open>truthiness of an optional string: \<open>undefined\<close>, \<open>null\<close> and \<open>""\<close> are falsy\<close>
  "truthy v = (case v of None \<Rightarrow> False | Some s \<Rightarrow> s \<noteq> [])"

definition ascii_lower :: "char \<Rightarrow> char" where
  \<comment> \<open>the case folding that the \<open>i\<close> flag applies between ASCII letters\<close>
  "ascii_lower c =
     (case map_of (zip ''ABCDEFGHIJKLMNOPQRSTUVWXYZ'' ''abcdefghijklmnopqrstuvwxyz'') c of
        None \<Rightarrow> c | Some d \<Rightarrow> d)"

definition latin1_upper :: string where
  "latin1_upper =
     [CHR 0xC0, CHR 0xC1, CHR 0xC2, CHR 0xC3, CHR 0xC4, CHR 0xC5, CHR 0xC6, CHR 0xC7,
      CHR 0xC8, CHR 0xC9, CHR 0xCA, CHR 0xCB, CHR 0xCC, CHR 0xCD, CHR 0xCE, CHR 0xCF,
      CHR 0xD0, CHR 0xD1, CHR 0xD2, CHR 0xD3, CHR 0xD4, CHR 0xD5, CHR 0xD6, CHR 0xD8,
      CHR 0xD9, CHR 0xDA, CHR 0xDB, CHR 0xDC, CHR 0xDD, CHR 0xDE]"

definition latin1_lower :: string where
  "latin1_lower =
     [CHR 0xE0, CHR 0xE1, CHR 0xE2, CHR 0xE3, CHR 0xE4, CHR 0xE5, CHR 0xE6, CHR 0xE7,
      CHR 0xE8, CHR 0xE9, CHR 0xEA, CHR 0xEB, CHR 0xEC, CHR 0xED, CHR 0xEE, CHR 0xEF,
      CHR 0xF0, CHR 0xF1, CHR 0xF2, CHR 0xF3, CHR 0xF4, CHR 0xF5, CHR 0xF6, CHR 0xF8,
      CHR 0xF9, CHR 0xFA, CHR 0xFB, CHR 0xFC, CHR 0xFD, CHR 0xFE]"

definition toLowerCase :: "string \<Rightarrow> string" where
  \<comment> \<open>\<open>String.prototype.toLowerCase\<close> on the code units \<open>0x00\<close> to \<open>0xFF\<close>\<close>
  "toLowerCase s =
     map (\<lambda>c. case map_of (zip latin1_upper latin1_lower) c of
                 None \<Rightarrow> ascii_lower c | Some d \<Rightarrow> d) s"

definition endsWith :: "string \<Rightarrow> string \<Rightarrow> bool" where
  "endsWith s ext = suffix ext s"

definition includes_str :: "string \<Rightarrow> string \<Rightarrow> bool" where
  "includes_str s sub = sublist sub s"

definition digit_char :: "nat \<Rightarrow> char" where
  "digit_char d = ''0123456789'' ! d"

function Number_toString :: "nat \<Rightarrow> string" where
  "Number_toString n =
     (if n < 10 then [digit_char n]
      else Number_toString (n div 10) @ [digit_char (n mod 10)])"
  by pat_completeness auto
termination
  by (relation "measure id") auto

declare Number_toString.simps [simp del]

definition uriUnreserved :: string where
  "uriUnreserved =
     ''ABCDEFGHIJKLMNOPQRSTUVWXYZabcdefghijklmnopqrstuvwxyz0123456789'' @ ''-_.!~*()'' @ [CHR 0x27]"

definition hex_digit :: "nat \<Rightarrow> char" where
  "hex_digit d = ''0123456789ABCDEF'' ! d"

definition percent_byte :: "nat \<Rightarrow> string" where
  "percent_byte b = [CHR ''%'', hex_digit (b div 16), hex_digit (b mod 16)]"

definition encode_unit :: "char \<Rightarrow> string" where
  \<comment> \<open>one code unit, escaped as the bytes of its UTF-8 encoding\<close>
  "encode_unit c =
     (let n = (of_char c :: nat) in
      if c \<in> set uriUnreserved then [c]
      else if n < 128 then percent_byte n
      else percent_byte (192 + n div 64) @ percent_byte (128 + n mod 64))"

definition encodeURIComponent :: "string \<Rightarrow> string" where
  "encodeURIComponent s = concat (map encode_unit s)"

fun split_on :: "char \<Rightarrow> string \<Rightarrow> string list" where
  \<comment> \<open>\<open>s.split(sep)\<close> for a separator of one code unit: empty segments are kept\<close>
  "split_on sep [] = [[]]"
| "split_on sep (c # cs) =
     (if c = sep then [] # split_on sep cs
      else (case split_on sep cs of
              [] \<Rightarrow> [[c]]
            | seg # segs \<Rightarrow> (c # seg) # segs))"

definition whitespace :: string where
  \<comment> \<open>the white space and line terminators that \<open>trim\<close> removes, in \<open>0x00\<close> to \<open>0xFF\<close>\<close>
  "whitespace = [CHR 0x09, CHR 0x0A, CHR 0x0B, CHR 0x0C, CHR 0x0D, CHR 0x20, CHR 0xA0]"

definition trim :: "string \<Rightarrow> string" where
  "trim s =
     rev (dropWhile (\<lambda>c. c \<in> set whitespace) (rev (dropWhile (\<lambda>c. c \<in> set whitespace) s)))"

section \<open>Constants and filename patterns\<close>

definition MAX_FILES_FOR_CONTENT_FETCH :: nat where
  "MAX_FILES_FOR_CONTENT_FETCH = 12"

definition MAX_FILE_CONTENT_LENGTH :: nat where
  "MAX_FILE_CONTENT_LENGTH = 20000"

definition GITHUB_API_BASE_URL :: string where
  "GITHUB_API_BASE_URL = ''https://api.github.com''"

definition MAX_CONTRIBUTORS_TO_FETCH :: nat where
  "MAX_CONTRIBUTORS_TO_FETCH = 15"

text \<open>
  The patterns of the source are anchored alternations of literals under the \<open>i\<close> flag.
  \<open>regex_i_whole alts\<close> is \<open>/^(a1|a2|...)$/i\<close> and \<open>regex_i_start alts\<close> is
  \<open>/^(a1|a2|...)/i\<close>; an optional group is written out as its alternatives. None of the
  patterns has the \<open>g\<close> flag, so \<open>test\<close> keeps no state between calls.
\<close>

definition regex_i_whole :: "string list \<Rightarrow> string \<Rightarrow> bool" where
  "regex_i_whole alts s = (map ascii_lower s \<in> set (map (map ascii_lower) alts))"

definition regex_i_start :: "string list \<Rightarrow> string \<Rightarrow> bool" where
  "regex_i_start alts s = list_ex (\<lambda>a. prefix (map ascii_lower a) (map ascii_lower s)) alts"

definition optional_ext :: "string list \<Rightarrow> string list \<Rightarrow> string list" where
  \<comment> \<open>\<open>(b1|b2|...)(\.(e1|e2|...))?\<close>\<close>
  "optional_ext bases exts = concat (map (\<lambda>b. b # map (\<lambda>e. b @ ''.'' @ e) exts) bases)"

definition MANIFEST_FILES_REGEX :: "string \<Rightarrow> bool" where
  "MANIFEST_FILES_REGEX =
     regex_i_whole
       [''package.json'', ''pnpm-lock.yaml'', ''yarn.lock'', ''package-lock.json'',
        ''pyproject.toml'', ''poetry.lock'', ''requirements.txt'', ''composer.json'',
        ''composer.lock'', ''Gemfile'', ''Gemfile.lock'', ''pom.xml'', ''build.gradle'',
        ''Cargo.toml'', ''Cargo.lock'', ''go.mod'', ''go.sum'', ''Makefile'', ''Dockerfile'',
        ''docker-compose.yml'', ''docker-compose.yaml'']"

definition README_FILES_REGEX :: "string \<Rightarrow> bool" where
  "README_FILES_REGEX =
     regex_i_whole (optional_ext [''README''] [''md'', ''rst'', ''txt'', ''markdown''])"

definition LICENSE_FILES_REGEX :: "string \<Rightarrow> bool" where
  "LICENSE_FILES_REGEX =
     regex_i_whole (optional_ext [''LICENSE'', ''COPYING''] [''md'', ''txt'', ''rst''])"

definition SOURCE_FILE_EXTENSIONS :: "string list" where
  "SOURCE_FILE_EXTENSIONS =
     [''.js'', ''.ts'', ''.tsx'', ''.jsx'', ''.py'', ''.java'', ''.go'', ''.rs'', ''.rb'',
      ''.php'', ''.cs'', ''.c'', ''.cpp'', ''.swift'', ''.kt'', ''.m'', ''.scala'', ''.pl'',
      ''.sh'', ''.lua'', ''.sql'', ''.html'', ''.css'', ''.vue'']"

definition COMMON_SOURCE_DIRS_REGEX :: "string \<Rightarrow> bool" where
  "COMMON_SOURCE_DIRS_REGEX =
     regex_i_start
       (map (\<lambda>d. d @ ''/'')
          [''src'', ''lib'', ''app'', ''source'', ''sources'', ''include'', ''pkg'', ''cmd'',
           ''internal'', ''core'', ''main'', ''server'', ''client''])"

definition TEST_DIRS_REGEX :: "string \<Rightarrow> bool" where
  "TEST_DIRS_REGEX = regex_i_start (map (\<lambda>d. d @ ''/'') [''test'', ''tests'', ''spec'', ''e2e''])"

definition DOCS_DIRS_REGEX :: "string \<Rightarrow> bool" where
  "DOCS_DIRS_REGEX =
     regex_i_start (map (\<lambda>d. d @ ''/'') [''doc'', ''docs'', ''documentation'', ''examples''])"

section \<open>File entries and the classifier\<close>

record GithubRepoToolFile =
  name :: string
  path :: string
  type :: string
  size_bytes :: "nat option"
  content :: "string option"
  url :: "string option"
  download_url :: "string option"
  sha :: "string option"
  error :: "string option"

definition getFilePriority :: "GithubRepoToolFile \<Rightarrow> nat" where
  "getFilePriority file =
     (let lowerPath = toLowerCase (path file) in
      if README_FILES_REGEX (name file) then 1
      else if LICENSE_FILES_REGEX (name file) then 2
      else if MANIFEST_FILES_REGEX (name file) then 3
      else if list_ex (\<lambda>ext. endsWith lowerPath ext) SOURCE_FILE_EXTENSIONS
              \<and> COMMON_SOURCE_DIRS_REGEX lowerPath then 4
      else if list_ex (\<lambda>ext. endsWith lowerPath ext) SOURCE_FILE_EXTENSIONS
              \<and> (includes_str lowerPath ''main'' \<or> includes_str lowerPath ''app''
                   \<or> includes_str lowerPath ''index'' \<or> includes_str lowerPath ''config'') then 5
      else if list_ex (\<lambda>ext. endsWith lowerPath ext) SOURCE_FILE_EXTENSIONS
              \<and> \<not> TEST_DIRS_REGEX lowerPath \<and> \<not> DOCS_DIRS_REGEX lowerPath then 6
      else if DOCS_DIRS_REGEX lowerPath
              \<and> list_ex (\<lambda>ext. endsWith lowerPath ext) SOURCE_FILE_EXTENSIONS then 7
      else 10)"

section \<open>The network\<close>

text \<open>
  \<open>fetch\<close> is the only effect of the tool. A request is answered by an oracle that sees
  the URLs requested so far, the URL and the headers, so that every behaviour of the
  provider is some oracle; the list of requested URLs is threaded through the model and
  shows which calls were made. A response carries its status, and its body either parsed
  (\<open>Inr\<close>) or the message of the exception that reading it raises (\<open>Inl\<close>). A rejected
  \<open>fetch\<close> carries the message of its exception.
\<close>

type_synonym HeadersInit = "(string \<times> string) list"

record 'b Response =
  status :: nat
  statusText :: string
  body :: "string + 'b"

definition ok :: "('b, 'm) Response_scheme \<Rightarrow> bool" where
  \<comment> \<open>\<open>response.ok\<close>: the status is in the range 200 to 299\<close>
  "ok r = (200 \<le> status r \<and> status r \<le> 299)"

datatype 'b fetch_result = Rejected string | Resolved "'b Response"

type_synonym 'b endpoint = "string list \<Rightarrow> string \<Rightarrow> HeadersInit \<Rightarrow> 'b fetch_result"

section \<open>Content Fetcher\<close>

definition truncation_marker :: string where
  "truncation_marker = CHR 0x0A # ''... (file content truncated)''"

definition raw_url :: "string \<Rightarrow> string \<Rightarrow> string \<Rightarrow> string \<Rightarrow> string" where
  "raw_url owner repo defaultBranch p =
     ''https://raw.githubusercontent.com/'' @ owner @ ''/'' @ repo @ ''/'' @ defaultBranch
       @ ''/'' @ encodeURIComponent p"

definition resolveDownloadUrl ::
  "GithubRepoToolFile \<Rightarrow> string \<Rightarrow> string \<Rightarrow> string \<Rightarrow> string option" where
  \<comment> \<open>the value of \<open>downloadUrl\<close> when it is tested\<close>
  "resolveDownloadUrl file owner repo defaultBranch =
     (if \<not> truthy (download_url file) \<and> truthy (sha file) \<and> path file \<noteq> []
      then Some (raw_url owner repo defaultBranch (path file))
      else download_url file)"

definition fetchFileContent ::
  "string endpoint \<Rightarrow> string list \<Rightarrow> GithubRepoToolFile \<Rightarrow> string \<Rightarrow> string \<Rightarrow> string
     \<Rightarrow> HeadersInit \<Rightarrow> (string option \<times> string option) \<times> string list" where
  \<comment> \<open>returns \<open>(content, error)\<close> and the requests made so far\<close>
  "fetchFileContent fetch tr file owner repo defaultBranch headers =
     (let downloadUrl = resolveDownloadUrl file owner repo defaultBranch in
      if \<not> truthy downloadUrl
      then ((None, Some (''No download URL could be constructed for file: '' @ path file)), tr)
      else
        (case downloadUrl of
           None \<Rightarrow> ((None, Some (''No download URL could be constructed for file: '' @ path file)), tr)
         | Some u \<Rightarrow>
            (case fetch tr u headers of
               Rejected msg \<Rightarrow>
                 ((None, Some (''Exception fetching file content: '' @ msg)), tr @ [u])
             | Resolved contentResponse \<Rightarrow>
                 if ok contentResponse then
                   (case body contentResponse of
                      Inl msg \<Rightarrow>
                        ((None, Some (''Exception fetching file content: '' @ msg)), tr @ [u])
                    | Inr textContent \<Rightarrow>
                        if length textContent > MAX_FILE_CONTENT_LENGTH
                        then ((Some (take MAX_FILE_CONTENT_LENGTH textContent @ truncation_marker),
                               None), tr @ [u])
                        else ((Some textContent, None), tr @ [u]))
                 else if status contentResponse = 404
                 then ((None, Some (''File content not found at '' @ u @ '' (404).'')), tr @ [u])
                 else ((None, Some (''Failed to fetch file content from '' @ u @ ''. Status: ''
                                     @ Number_toString (status contentResponse) @ '' ''
                                     @ statusText contentResponse)), tr @ [u]))))"

section \<open>Sorting\<close>

text \<open>
  \<open>Array.prototype.sort\<close> with a comparator is stable. For a comparator that orders by a
  key, as the one of the source does, its result is the result of the stable insertion
  below: an element goes before the first element that it does not compare greater than.
\<close>

fun insert_by :: "('a \<Rightarrow> 'a \<Rightarrow> int) \<Rightarrow> 'a \<Rightarrow> 'a list \<Rightarrow> 'a list" where
  "insert_by cmp x [] = [x]"
| "insert_by cmp x (y # ys) = (if cmp x y \<le> 0 then x # y # ys else y # insert_by cmp x ys)"

definition Array_sort :: "('a \<Rightarrow> 'a \<Rightarrow> int) \<Rightarrow> 'a list \<Rightarrow> 'a list" where
  "Array_sort cmp xs = foldr (insert_by cmp) xs []"

definition byPriority :: "GithubRepoToolFile \<Rightarrow> GithubRepoToolFile \<Rightarrow> int" where
  \<comment> \<open>\<open>(a, b) => getFilePriority(a) - getFilePriority(b)\<close>\<close>
  "byPriority a b = int (getFilePriority a) - int (getFilePriority b)"

section \<open>Selection Engine\<close>

text \<open>
  The local variables of the budget loop, with the requests made so far. A property that
  is absent and one that is \<open>undefined\<close> are both \<open>None\<close>.
\<close>

record selection_state =
  trace :: "string list"
  repoContents :: "GithubRepoToolFile list"
  fetchedContentCount :: nat

definition isPriorityFile :: "GithubRepoToolFile \<Rightarrow> bool" where
  "isPriorityFile file =
     (README_FILES_REGEX (name file) \<or> MANIFEST_FILES_REGEX (name file)
      \<or> LICENSE_FILES_REGEX (name file))"

definition tooLarge :: "GithubRepoToolFile \<Rightarrow> bool" where
  \<comment> \<open>\<open>file.size && file.size > MAX_FILE_CONTENT_LENGTH * 3\<close>\<close>
  "tooLarge file =
     (case size_bytes file of
        None \<Rightarrow> False
      | Some n \<Rightarrow> n \<noteq> 0 \<and> n > MAX_FILE_CONTENT_LENGTH * 3)"

definition tooLargeError :: "GithubRepoToolFile \<Rightarrow> string" where
  "tooLargeError file =
     ''File too large to fetch content (''
       @ (case size_bytes file of None \<Rightarrow> ''undefined'' | Some n \<Rightarrow> Number_toString n)
       @ '' bytes). Not a priority file.''"

definition limitError :: string where
  "limitError = ''Content not fetched due to limit (MAX_FILES_FOR_CONTENT_FETCH reached).''"

definition listedOverBudget :: "GithubRepoToolFile \<Rightarrow> bool" where
  \<comment> \<open>the test of the branch taken once the budget is used up\<close>
  "listedOverBudget file =
     (README_FILES_REGEX (name file) \<or> MANIFEST_FILES_REGEX (name file)
      \<or> LICENSE_FILES_REGEX (name file)
      \<or> list_ex (\<lambda>ext. endsWith (path file) ext) SOURCE_FILE_EXTENSIONS)"

definition minimalFile :: "GithubRepoToolFile \<Rightarrow> GithubRepoToolFile" where
  "minimalFile file =
     file\<lparr>content := None,
          error := (if truthy (error file) then error file else Some limitError)\<rparr>"

definition selection_step ::
  "string endpoint \<Rightarrow> string \<Rightarrow> string \<Rightarrow> string \<Rightarrow> HeadersInit
     \<Rightarrow> selection_state \<Rightarrow> GithubRepoToolFile \<Rightarrow> selection_state" where
  \<comment> \<open>the body of \<open>for (const file of filesOnly)\<close>\<close>
  "selection_step fetch owner repo defaultBranch headers s file =
     (if fetchedContentCount s < MAX_FILES_FOR_CONTENT_FETCH then
        (if tooLarge file \<and> \<not> isPriorityFile file
         then s\<lparr>repoContents :=
                  repoContents s @ [file\<lparr>content := None, error := Some (tooLargeError file)\<rparr>]\<rparr>
         else
           (case fetchFileContent fetch (trace s) file owner repo defaultBranch headers of
              ((c, e), tr) \<Rightarrow>
                s\<lparr>trace := tr,
                  repoContents :=
                    repoContents s
                      @ [if truthy e then file\<lparr>content := c, error := e\<rparr>
                         else file\<lparr>content := c\<rparr>],
                  fetchedContentCount :=
                    (if truthy c \<and> \<not> truthy e then fetchedContentCount s + 1
                     else fetchedContentCount s)\<rparr>))
      else
        (if listedOverBudget file
         then s\<lparr>repoContents := repoContents s @ [minimalFile file]\<rparr>
         else s))"

definition selection_loop ::
  "string endpoint \<Rightarrow> string \<Rightarrow> string \<Rightarrow> string \<Rightarrow> HeadersInit
     \<Rightarrow> selection_state \<Rightarrow> GithubRepoToolFile list \<Rightarrow> selection_state" where
  "selection_loop fetch owner repo defaultBranch headers s files =
     foldl (selection_step fetch owner repo defaultBranch headers) s files"

definition filesOnly :: "GithubRepoToolFile list \<Rightarrow> GithubRepoToolFile list" where
  \<comment> \<open>\<open>filesOnly\<close> after it has been sorted in place\<close>
  "filesOnly allFilesFromTree =
     Array_sort byPriority (filter (\<lambda>f. type f = ''file'' \<and> path f \<noteq> []) allFilesFromTree)"

definition initial_state :: "string list \<Rightarrow> selection_state" where
  \<comment> \<open>\<open>repoContents = []\<close> and \<open>fetchedContentCount = 0\<close>, after the requests \<open>tr\<close>\<close>
  "initial_state tr = \<lparr>trace = tr, repoContents = [], fetchedContentCount = 0\<rparr>"

definition selectRepoContents ::
  "string endpoint \<Rightarrow> string \<Rightarrow> string \<Rightarrow> string \<Rightarrow> HeadersInit \<Rightarrow> string list
     \<Rightarrow> GithubRepoToolFile list \<Rightarrow> GithubRepoToolFile list \<times> string list" where
  \<comment> \<open>from \<open>allFilesFromTree\<close> to the sorted \<open>repoContents\<close>, with the requests made\<close>
  "selectRepoContents fetch owner repo defaultBranch headers tr allFilesFromTree =
     (let s = selection_loop fetch owner repo defaultBranch headers (initial_state tr)
                (filesOnly allFilesFromTree)
      in (Array_sort byPriority (repoContents s), trace s))"

section \<open>Repository Info Aggregator\<close>

text \<open>
  The parsed bodies of the provider's answers, with the properties that the tool reads.
  Each call site of \<open>fetch\<close> reads the body in its own way, so the network is one oracle
  per kind of request; all of them see the same list of requests made so far.
\<close>

record RepoDetails =
  repo_name :: "string option"
  repo_description :: "string option"
  repo_language :: "string option"
  default_branch :: "string option"

record TreeItem =
  item_path :: string
  item_type :: string
  item_size :: "nat option"
  item_sha :: "string option"
  item_url :: "string option"

record TreeData =
  truncated :: bool
  tree :: "TreeItem list"

record ContentsItem =
  c_name :: string
  c_path :: string
  c_type :: string
  c_size :: "nat option"
  c_sha :: "string option"
  c_url :: "string option"
  c_download_url :: "string option"

record ContributorData =
  d_type :: "string option"
  d_login :: "string option"
  d_avatar_url :: "string option"
  d_html_url :: "string option"
  d_contributions :: "nat option"

record GithubContributor =
  login :: string
  avatar_url :: string
  html_url :: string
  contributions :: "nat option"

record network =
  repo_api :: "RepoDetails endpoint"
  tree_api :: "TreeData endpoint"
  contents_api :: "ContentsItem list endpoint"
  raw_api :: "string endpoint"
  contributors_api :: "ContributorData list option endpoint"

text \<open>
  The result of the tool; its properties carry the prefix \<open>out_\<close> here, since
  \<open>repoContents\<close> and \<open>error\<close> are names of the file entry and of the loop.
\<close>

record GithubRepoToolOutput =
  out_repoName :: "string option"
  out_description :: "string option"
  out_mainLanguage :: "string option"
  out_repoContents :: "GithubRepoToolFile list option"
  out_contributors :: "GithubContributor list option"
  out_error :: "string option"
  out_toolInput :: "(string \<times> string option) option"

definition errorOutput :: "string \<Rightarrow> string \<Rightarrow> string option \<Rightarrow> GithubRepoToolOutput" where
  \<comment> \<open>\<open>{error: msg, toolInput: {repoUrl, githubToken}}\<close>\<close>
  "errorOutput msg repoUrl githubToken =
     \<lparr>out_repoName = None, out_description = None, out_mainLanguage = None,
      out_repoContents = None, out_contributors = None, out_error = Some msg,
      out_toolInput = Some (repoUrl, githubToken)\<rparr>"

definition strip_git :: "string \<Rightarrow> string" where
  \<comment> \<open>\<open>s.replace(/\.git$/, '')\<close>\<close>
  "strip_git s = (if suffix ''.git'' s then take (length s - 4) s else s)"

definition parseRepoUrl :: "(string \<Rightarrow> string + string) \<Rightarrow> string \<Rightarrow> string + (string \<times> string)" where
  \<comment> \<open>\<open>URL_pathname u\<close> is \<open>new URL(u).pathname\<close>, or \<open>Inl\<close> the message of the exception of
      the constructor; the result is \<open>Inl\<close> the error of the tool or \<open>Inr (owner, repo)\<close>\<close>
  "parseRepoUrl URL_pathname repoUrl =
     (case URL_pathname repoUrl of
        Inl msg \<Rightarrow> Inl (''Invalid repository URL: '' @ msg)
      | Inr pathname \<Rightarrow>
          (let pathParts = filter (\<lambda>p. p \<noteq> []) (split_on CHR ''/'' pathname) in
           if length pathParts < 2
           then Inl ''Invalid GitHub repository URL format. Could not extract owner/repo.''
           else Inr (pathParts ! 0, strip_git (pathParts ! 1))))"

definition requestHeaders :: "string option \<Rightarrow> HeadersInit" where
  "requestHeaders githubToken =
     [(''Accept'', ''application/vnd.github.v3+json''), (''X-GitHub-Api-Version'', ''2022-11-28'')]
       @ (case githubToken of
            None \<Rightarrow> []
          | Some t \<Rightarrow> if t = [] then [] else [(''Authorization'', ''token '' @ t)])"

definition repoDetailsError :: "nat \<Rightarrow> string \<Rightarrow> string" where
  "repoDetailsError st stText =
     ''Failed to fetch repository details. Status: '' @ Number_toString st @ '' '' @ stText @ ''. ''
       @ (if st = 404
          then ''This could be an invalid URL or a private repository for which the provided token (if any) is invalid or lacks permissions.''
          else if st = 401 \<or> st = 403
          then ''Authentication failed. Ensure your GitHub Personal Access Token is correct and has the ''
                 @ [CHR 0x27] @ ''repo'' @ [CHR 0x27] @ '' scope if accessing a private repository.''
          else ''This could also be due to API rate limits.'')"

definition fromTreeItem :: "string \<Rightarrow> string \<Rightarrow> string \<Rightarrow> TreeItem \<Rightarrow> GithubRepoToolFile" where
  "fromTreeItem owner repo defaultBranch item =
     \<lparr>name = (let l = last (split_on CHR ''/'' (item_path item)) in
               if l = [] then item_path item else l),
      path = item_path item,
      type = (if item_type item = ''blob'' then ''file''
              else if item_type item = ''tree'' then ''dir'' else ''symlink''),
      size_bytes = item_size item,
      content = None,
      url = item_url item,
      download_url = (if item_type item = ''blob''
                      then Some (raw_url owner repo defaultBranch (item_path item)) else None),
      sha = item_sha item,
      error = None\<rparr>"

definition fromContentsItem :: "ContentsItem \<Rightarrow> GithubRepoToolFile" where
  "fromContentsItem item =
     \<lparr>name = c_name item,
      path = c_path item,
      type = c_type item,
      size_bytes = c_size item,
      content = None,
      url = c_url item,
      download_url = (case c_download_url item of
                        None \<Rightarrow> None
                      | Some d \<Rightarrow> if d \<noteq> [] \<and> trim d \<noteq> [] then Some (trim d) else None),
      sha = c_sha item,
      error = None\<rparr>"

definition treeUrl :: "string \<Rightarrow> string \<Rightarrow> string \<Rightarrow> string" where
  "treeUrl owner repo defaultBranch =
     GITHUB_API_BASE_URL @ ''/repos/'' @ owner @ ''/'' @ repo @ ''/git/trees/'' @ defaultBranch
       @ ''?recursive=true''"

definition contentsUrl :: "string \<Rightarrow> string \<Rightarrow> string \<Rightarrow> string" where
  "contentsUrl owner repo defaultBranch =
     GITHUB_API_BASE_URL @ ''/repos/'' @ owner @ ''/'' @ repo @ ''/contents?ref='' @ defaultBranch"

definition fetchTree ::
  "network \<Rightarrow> string list \<Rightarrow> string \<Rightarrow> string \<Rightarrow> string \<Rightarrow> HeadersInit
     \<Rightarrow> (string + GithubRepoToolFile list) \<times> string list" where
  \<comment> \<open>the \<open>try\<close> block that fills \<open>allFilesFromTree\<close>: \<open>Inl\<close> the error that the tool
      returns, or \<open>Inr\<close> the listing; with the requests made so far\<close>
  "fetchTree net tr owner repo defaultBranch headers =
     (case tree_api net tr (treeUrl owner repo defaultBranch) headers of
        Rejected msg \<Rightarrow>
          (Inl (''Exception fetching repository tree structure: '' @ msg),
           tr @ [treeUrl owner repo defaultBranch])
      | Resolved treeResponse \<Rightarrow>
          if ok treeResponse then
            (case body treeResponse of
               Inl msg \<Rightarrow>
                 (Inl (''Exception fetching repository tree structure: '' @ msg),
                  tr @ [treeUrl owner repo defaultBranch])
             | Inr treeData \<Rightarrow>
                 (Inr (map (fromTreeItem owner repo defaultBranch) (tree treeData)),
                  tr @ [treeUrl owner repo defaultBranch]))
          else
            (case contents_api net (tr @ [treeUrl owner repo defaultBranch])
                    (contentsUrl owner repo defaultBranch) headers of
               Rejected msg \<Rightarrow>
                 (Inl (''Exception fetching repository tree structure: '' @ msg),
                  tr @ [treeUrl owner repo defaultBranch, contentsUrl owner repo defaultBranch])
             | Resolved contentsResponse \<Rightarrow>
                 if ok contentsResponse then
                   (case body contentsResponse of
                      Inl msg \<Rightarrow>
                        (Inl (''Exception fetching repository tree structure: '' @ msg),
                         tr @ [treeUrl owner repo defaultBranch,
                               contentsUrl owner repo defaultBranch])
                    | Inr topLevelContents \<Rightarrow>
                        (Inr (map fromContentsItem topLevelContents),
                         tr @ [treeUrl owner repo defaultBranch,
                               contentsUrl owner repo defaultBranch]))
                 else
                   (Inl (''Failed to fetch repository contents. Tree Error: ''
                           @ statusText treeResponse @ '', Contents Error: ''
                           @ statusText contentsResponse),
                    tr @ [treeUrl owner repo defaultBranch,
                          contentsUrl owner repo defaultBranch])))"

definition nonSuccess :: "'b fetch_result \<Rightarrow> bool" where
  \<comment> \<open>the request is answered, with a status that is not a success\<close>
  "nonSuccess r = (case r of Rejected msg \<Rightarrow> False | Resolved resp \<Rightarrow> \<not> ok resp)"

definition noListing :: "'b fetch_result \<Rightarrow> bool" where
  \<comment> \<open>the request gives no listing: it is rejected, or answered with a status that is not a
      success, or its body cannot be read\<close>
  "noListing r = (case r of Rejected msg \<Rightarrow> True | Resolved resp \<Rightarrow> \<not> ok resp \<or> isl (body resp))"

definition contributorsUrl :: "string \<Rightarrow> string \<Rightarrow> string" where
  "contributorsUrl owner repo =
     GITHUB_API_BASE_URL @ ''/repos/'' @ owner @ ''/'' @ repo @ ''/contributors?anon=0&per_page=''
       @ Number_toString MAX_CONTRIBUTORS_TO_FETCH"

definition toContributor :: "ContributorData \<Rightarrow> GithubContributor" where
  "toContributor c =
     \<lparr>login = (case d_login c of None \<Rightarrow> [] | Some l \<Rightarrow> l),
      avatar_url = (case d_avatar_url c of None \<Rightarrow> [] | Some a \<Rightarrow> a),
      html_url = (case d_html_url c of None \<Rightarrow> [] | Some h \<Rightarrow> h),
      contributions = d_contributions c\<rparr>"

definition fetchContributors ::
  "network \<Rightarrow> string list \<Rightarrow> string \<Rightarrow> string \<Rightarrow> HeadersInit
     \<Rightarrow> GithubContributor list option \<times> string list" where
  "fetchContributors net tr owner repo headers =
     (case contributors_api net tr (contributorsUrl owner repo) headers of
        Rejected msg \<Rightarrow> (None, tr @ [contributorsUrl owner repo])
      | Resolved contributorsResponse \<Rightarrow>
          if ok contributorsResponse then
            (case body contributorsResponse of
               Inl msg \<Rightarrow> (None, tr @ [contributorsUrl owner repo])
             | Inr None \<Rightarrow> (None, tr @ [contributorsUrl owner repo])
             | Inr (Some contributorsData) \<Rightarrow>
                 (Some (take MAX_CONTRIBUTORS_TO_FETCH
                          (map toContributor
                             (filter (\<lambda>c. d_type c \<noteq> Some ''Bot'' \<and> truthy (d_login c)
                                        \<and> truthy (d_avatar_url c) \<and> truthy (d_html_url c))
                                contributorsData))),
                  tr @ [contributorsUrl owner repo]))
          else (None, tr @ [contributorsUrl owner repo]))"

definition repoDetailsUrl :: "string \<Rightarrow> string \<Rightarrow> string" where
  "repoDetailsUrl owner repo = GITHUB_API_BASE_URL @ ''/repos/'' @ owner @ ''/'' @ repo"

definition defaultBranchOf :: "RepoDetails \<Rightarrow> string" where
  \<comment> \<open>\<open>repoDetails.default_branch || 'master'\<close>\<close>
  "defaultBranchOf repoDetails =
     (case default_branch repoDetails of
        None \<Rightarrow> ''master''
      | Some b \<Rightarrow> if b = [] then ''master'' else b)"

definition fetchRepoInfoTool ::
  "(string \<Rightarrow> string + string) \<Rightarrow> network \<Rightarrow> string \<Rightarrow> string option
     \<Rightarrow> GithubRepoToolOutput \<times> string list" where
  \<comment> \<open>the result of the tool and the URLs it requested, in order\<close>
  "fetchRepoInfoTool URL_pathname net repoUrl githubToken =
     (case parseRepoUrl URL_pathname repoUrl of
        Inl msg \<Rightarrow> (errorOutput msg repoUrl githubToken, [])
      | Inr (owner, repo) \<Rightarrow>
          (let headers = requestHeaders githubToken;
               detailsUrl = repoDetailsUrl owner repo in
           case repo_api net [] detailsUrl headers of
             Rejected msg \<Rightarrow>
               (errorOutput (''Exception fetching repository details: '' @ msg) repoUrl githubToken,
                [detailsUrl])
           | Resolved repoDetailsResponse \<Rightarrow>
               if \<not> ok repoDetailsResponse
               then (errorOutput (repoDetailsError (status repoDetailsResponse)
                                    (statusText repoDetailsResponse)) repoUrl githubToken,
                     [detailsUrl])
               else
                 (case body repoDetailsResponse of
                    Inl msg \<Rightarrow>
                      (errorOutput (''Exception fetching repository details: '' @ msg)
                         repoUrl githubToken, [detailsUrl])
                  | Inr repoDetails \<Rightarrow>
                      (let defaultBranch = defaultBranchOf repoDetails in
                       case fetchTree net [detailsUrl] owner repo defaultBranch headers of
                         (Inl msg, tr) \<Rightarrow> (errorOutput msg repoUrl githubToken, tr)
                       | (Inr allFilesFromTree, tr) \<Rightarrow>
                           (case selectRepoContents (raw_api net) owner repo defaultBranch
                                   headers tr allFilesFromTree of
                              (contents, tr2) \<Rightarrow>
                                (case fetchContributors net tr2 owner repo headers of
                                   (contributorsList, tr3) \<Rightarrow>
                                     (\<lparr>out_repoName = repo_name repoDetails,
                                       out_description = repo_description repoDetails,
                                       out_mainLanguage = repo_language repoDetails,
                                       out_repoContents =
                                         (if contents \<noteq> [] then Some contents else None),
                                       out_contributors = contributorsList,
                                       out_error = None,
                                       out_toolInput = Some (repoUrl, githubToken)\<rparr>,
                                      tr3)))))))"

section \<open>The budget invariant\<close>

definition budget_inv :: "selection_state \<Rightarrow> bool" where
  "budget_inv s =
     (length (filter (\<lambda>e. truthy (content e)) (repoContents s)) \<le> fetchedContentCount s
      \<and> fetchedContentCount s \<le> MAX_FILES_FOR_CONTENT_FETCH)"

section \<open>Example inputs\<close>

definition mk_file :: "string \<Rightarrow> string \<Rightarrow> nat option \<Rightarrow> GithubRepoToolFile" where
  "mk_file n p sz =
     \<lparr>name = n, path = p, type = ''file'', size_bytes = sz, content = None, url = None,
      download_url = Some (''https://raw.example/'' @ p), sha = Some ''0a1b'', error = None\<rparr>"

definition text_endpoint :: "string \<Rightarrow> string endpoint" where
  "text_endpoint t tr u h = Resolved \<lparr>status = 200, statusText = ''OK'', body = Inr t\<rparr>"

definition no_sha_file :: GithubRepoToolFile where
  "no_sha_file =
     \<lparr>name = ''a.txt'', path = ''a.txt'', type = ''file'', size_bytes = None, content = None,
      url = None, download_url = None, sha = None, error = None\<rparr>"

definition sha_only_file :: GithubRepoToolFile where
  "sha_only_file =
     \<lparr>name = ''a.ts'', path = ''src/a.ts'', type = ''file'', size_bytes = None, content = None,
      url = None, download_url = None, sha = Some ''0a1b'', error = None\<rparr>"

definition carriesFetchedContent :: "GithubRepoToolFile \<Rightarrow> bool" where
  \<comment> \<open>an entry that carries fetched content, as the budget invariant of the specification
      counts it: the content is present and there is no error\<close>
  "carriesFetchedContent e = (content e \<noteq> None \<and> error e = None)"

definition thirteen_files :: "GithubRepoToolFile list" where
  "thirteen_files =
     map (\<lambda>n. mk_file n n None)
       [''a'', ''b'', ''c'', ''d'', ''e'', ''f'', ''g'', ''h'', ''i'', ''j'', ''k'', ''l'', ''m'']"

definition data_bin :: GithubRepoToolFile where
  "data_bin = mk_file ''data.bin'' ''assets/data.bin'' (Some 500000)"

definition fourteen_files :: "GithubRepoToolFile list" where
  "fourteen_files =
     map (\<lambda>d. mk_file ''README.md'' (d @ ''/README.md'') None)
       [''a'', ''b'', ''c'', ''d'', ''e'', ''f'', ''g'', ''h'', ''i'', ''j'', ''k'', ''l'']
     @ [mk_file ''README.md'' ''m/README.md'' None, mk_file ''notes.txt'' ''notes.txt'' None]"

definition github_pathname :: "string \<Rightarrow> string + string" where
  \<comment> \<open>\<open>new URL(u).pathname\<close> for the URLs of the examples: what follows the host in
      \<open>https://github.com/...\<close>, when there is no query, fragment, dot segment or escaped
      character\<close>
  "github_pathname u =
     (if prefix ''https://github.com/'' u then Inr (drop 18 u) else Inl ''Invalid URL'')"

definition failing_net :: network where
  "failing_net =
     \<lparr>repo_api = (\<lambda>tr u h. Resolved \<lparr>status = 200, statusText = ''OK'',
                    body = Inr \<lparr>repo_name = Some ''widget'', repo_description = None,
                               repo_language = None, default_branch = Some ''main''\<rparr>\<rparr>),
      tree_api = (\<lambda>tr u h. Resolved \<lparr>status = 500, statusText = ''Internal Server Error'',
                    body = Inl ''Unexpected end of JSON input''\<rparr>),
      contents_api = (\<lambda>tr u h. Resolved \<lparr>status = 403, statusText = ''Forbidden'',
                    body = Inl ''Unexpected end of JSON input''\<rparr>),
      raw_api = text_endpoint ''x'',
      contributors_api = (\<lambda>tr u h. Rejected ''fetch failed'')\<rparr>"

definition rejecting_net :: network where
  "rejecting_net =
     \<lparr>repo_api = (\<lambda>tr u h. Resolved \<lparr>status = 200, statusText = ''OK'',
                    body = Inr \<lparr>repo_name = Some ''widget'', repo_description = None,
                               repo_language = None, default_branch = Some ''main''\<rparr>\<rparr>),
      tree_api = (\<lambda>tr u h. Rejected ''fetch failed''),
      contents_api = (\<lambda>tr u h. Resolved \<lparr>status = 200, statusText = ''OK'', body = Inr []\<rparr>),
      raw_api = text_endpoint ''x'',
      contributors_api = (\<lambda>tr u h. Rejected ''fetch failed'')\<rparr>"

definition upper_ts :: GithubRepoToolFile where
  "upper_ts = mk_file ''Z.TS'' ''Z.TS'' None"

definition readmes_then_upper_ts :: "GithubRepoToolFile list" where
  "readmes_then_upper_ts =
     map (\<lambda>d. mk_file ''README.md'' (d @ ''/README.md'') None)
       [''a'', ''b'', ''c'', ''d'', ''e'', ''f'', ''g'', ''h'', ''i'', ''j'', ''k'', ''l'']
     @ [upper_ts]"

section \<open>Properties\<close>

subsection \<open>Sorting\<close>

lemma insert_by_byPriority: "insert_by byPriority x ys = insort_key getFilePriority x ys"
  by (induction ys) (auto simp: byPriority_def)

lemma Array_sort_byPriority: "Array_sort byPriority xs = sort_key getFilePriority xs"
  by (induction xs) (simp_all add: Array_sort_def insert_by_byPriority)

lemma set_Array_sort: "set (Array_sort byPriority xs) = set xs"
  by (simp add: Array_sort_byPriority)

lemma sorted_Array_sort: "sorted (map getFilePriority (Array_sort byPriority xs))"
  by (simp add: Array_sort_byPriority)

lemma filter_Array_sort_length:
  "length (filter P (Array_sort byPriority xs)) = length (filter P xs)"
  by (simp add: Array_sort_byPriority filter_sort)

subsection \<open>Content Fetcher\<close>

lemma fetchFileContent_ok:
  assumes "resolveDownloadUrl f owner repo defaultBranch = Some u" "u \<noteq> []"
    and "fetch tr u headers = Resolved r" "ok r" "body r = Inr t"
  shows "fetchFileContent fetch tr f owner repo defaultBranch headers =
           ((Some (if length t > MAX_FILE_CONTENT_LENGTH
                   then take MAX_FILE_CONTENT_LENGTH t @ truncation_marker else t), None),
            tr @ [u])"
  using assms by (simp add: fetchFileContent_def truthy_def)

lemma fetchFileContent_no_url:
  assumes "\<not> truthy (resolveDownloadUrl f owner repo defaultBranch)"
  shows "fetchFileContent fetch tr f owner repo defaultBranch headers =
           ((None, Some (''No download URL could be constructed for file: '' @ path f)), tr)"
  using assms by (simp add: fetchFileContent_def)

lemma fetchFileContent_requests:
  assumes "resolveDownloadUrl f owner repo defaultBranch = Some u" "u \<noteq> []"
  shows "snd (fetchFileContent fetch tr f owner repo defaultBranch headers) = tr @ [u]"
  using assms
  by (simp add: fetchFileContent_def truthy_def split: fetch_result.splits sum.splits)

lemma fetchFileContent_content_no_error:
  assumes "fetchFileContent fetch tr f owner repo defaultBranch headers = ((c, e), tr')"
  shows "c = None \<or> e = None"
  using assms
  by (auto simp: fetchFileContent_def Let_def
           split: if_splits option.splits fetch_result.splits sum.splits)

lemma fetchFileContent_error_truthy:
  assumes "fetchFileContent fetch tr f owner repo defaultBranch headers = ((c, Some e), tr')"
  shows "e \<noteq> []"
  using assms
  by (auto simp: fetchFileContent_def Let_def
           split: if_splits option.splits fetch_result.splits sum.splits)

subsection \<open>The budget loop\<close>

lemma selection_loop_Nil [simp]: "selection_loop fetch owner repo b h s [] = s"
  by (simp add: selection_loop_def)

lemma selection_loop_Cons [simp]:
  "selection_loop fetch owner repo b h s (f # fs) =
     selection_loop fetch owner repo b h (selection_step fetch owner repo b h s f) fs"
  by (simp add: selection_loop_def)

lemma selection_loop_append:
  "selection_loop fetch owner repo b h s (fs @ gs) =
     selection_loop fetch owner repo b h (selection_loop fetch owner repo b h s fs) gs"
  by (simp add: selection_loop_def)

lemma selection_step_grows:
  "prefix (repoContents s) (repoContents (selection_step fetch owner repo b h s f))"
  by (auto simp: selection_step_def split: prod.splits)

lemma selection_loop_grows:
  "prefix (repoContents s) (repoContents (selection_loop fetch owner repo b h s fs))"
proof (induction fs arbitrary: s)
  case Nil
  show ?case by simp
next
  case (Cons f fs)
  have "prefix (repoContents s) (repoContents (selection_step fetch owner repo b h s f))"
    by (rule selection_step_grows)
  also have "prefix \<dots> (repoContents (selection_loop fetch owner repo b h
                                        (selection_step fetch owner repo b h s f) fs))"
    by (rule Cons.IH)
  finally show ?case by simp
qed

lemma selection_step_count:
  "fetchedContentCount (selection_step fetch owner repo b h s f) =
     (if fetchedContentCount s < MAX_FILES_FOR_CONTENT_FETCH
         \<and> \<not> (tooLarge f \<and> \<not> isPriorityFile f)
         \<and> truthy (fst (fst (fetchFileContent fetch (trace s) f owner repo b h)))
         \<and> \<not> truthy (snd (fst (fetchFileContent fetch (trace s) f owner repo b h)))
      then fetchedContentCount s + 1 else fetchedContentCount s)"
  by (auto simp: selection_step_def minimalFile_def split: prod.splits)

lemma budget_inv_step:
  assumes "budget_inv s"
  shows "budget_inv (selection_step fetch owner repo b h s f)"
proof -
  obtain c e tr where r: "fetchFileContent fetch (trace s) f owner repo b h = ((c, e), tr)"
    by (metis surj_pair)
  have ce: "truthy c \<Longrightarrow> \<not> truthy e"
    using fetchFileContent_content_no_error [OF r] by (auto simp: truthy_def)
  show ?thesis
    using assms ce
    by (auto simp: budget_inv_def selection_step_def r minimalFile_def truthy_def)
qed

lemma budget_inv_loop:
  "budget_inv s \<Longrightarrow> budget_inv (selection_loop fetch owner repo b h s fs)"
  by (induction fs arbitrary: s) (simp_all add: budget_inv_step)

lemma budget_bound:
  "length (filter (\<lambda>e. truthy (content e))
             (fst (selectRepoContents fetch owner repo b h tr allFiles)))
     \<le> MAX_FILES_FOR_CONTENT_FETCH"
proof -
  have "budget_inv (initial_state tr)"
    by (simp add: budget_inv_def initial_state_def)
  then have "budget_inv (selection_loop fetch owner repo b h (initial_state tr)
                (filesOnly allFiles))"
    by (rule budget_inv_loop)
  then show ?thesis
    by (simp add: selectRepoContents_def Let_def filter_Array_sort_length budget_inv_def)
qed

lemma selection_loop_exhausted:
  assumes "\<not> fetchedContentCount s < MAX_FILES_FOR_CONTENT_FETCH"
  shows "selection_loop fetch owner repo b h s rest =
           s\<lparr>repoContents := repoContents s @ map minimalFile (filter listedOverBudget rest)\<rparr>"
  using assms
proof (induction rest arbitrary: s)
  case Nil
  show ?case by simp
next
  case (Cons f fs)
  show ?case
  proof (cases "listedOverBudget f")
    case True
    have st: "selection_step fetch owner repo b h s f
                = s\<lparr>repoContents := repoContents s @ [minimalFile f]\<rparr>"
      using Cons.prems True by (simp add: selection_step_def)
    show ?thesis using Cons.prems True by (simp add: st Cons.IH)
  next
    case False
    have st: "selection_step fetch owner repo b h s f = s"
      using Cons.prems False by (simp add: selection_step_def)
    show ?thesis using Cons.prems False by (simp add: st Cons.IH)
  qed
qed

lemma README_FILES_REGEX_iff:
  "README_FILES_REGEX n \<longleftrightarrow>
     map ascii_lower n \<in> set [''readme'', ''readme.md'', ''readme.rst'', ''readme.txt'', ''readme.markdown'']"
  by (simp add: README_FILES_REGEX_def regex_i_whole_def optional_ext_def ascii_lower_def)

lemma LICENSE_FILES_REGEX_iff:
  "LICENSE_FILES_REGEX n \<longleftrightarrow>
     map ascii_lower n \<in> set [''license'', ''license.md'', ''license.txt'', ''license.rst'',
                              ''copying'', ''copying.md'', ''copying.txt'', ''copying.rst'']"
  by (simp add: LICENSE_FILES_REGEX_def regex_i_whole_def optional_ext_def ascii_lower_def)

lemma MANIFEST_FILES_REGEX_iff:
  "MANIFEST_FILES_REGEX n \<longleftrightarrow>
     map ascii_lower n \<in> set
       [''package.json'', ''pnpm-lock.yaml'', ''yarn.lock'', ''package-lock.json'',
        ''pyproject.toml'', ''poetry.lock'', ''requirements.txt'', ''composer.json'',
        ''composer.lock'', ''gemfile'', ''gemfile.lock'', ''pom.xml'', ''build.gradle'',
        ''cargo.toml'', ''cargo.lock'', ''go.mod'', ''go.sum'', ''makefile'', ''dockerfile'',
        ''docker-compose.yml'', ''docker-compose.yaml'']"
  by (simp add: MANIFEST_FILES_REGEX_def regex_i_whole_def ascii_lower_def)

lemmas name_regex_iff = README_FILES_REGEX_iff LICENSE_FILES_REGEX_iff MANIFEST_FILES_REGEX_iff


lemma raw_url_not_Nil: "raw_url owner repo b p \<noteq> []"
  by (simp add: raw_url_def)

lemma truthy_Some [simp]: "truthy (Some u) \<longleftrightarrow> u \<noteq> []"
  by (simp add: truthy_def)

lemma truthy_None [simp]: "\<not> truthy None"
  by (simp add: truthy_def)

lemma resolveDownloadUrl_truthy:
  "truthy (resolveDownloadUrl f owner repo b) \<longleftrightarrow>
     truthy (download_url f) \<or> (truthy (sha f) \<and> path f \<noteq> [])"
  by (auto simp: resolveDownloadUrl_def raw_url_not_Nil)

lemma fetchFileContent_requests_truthy:
  assumes "truthy (resolveDownloadUrl f owner repo b)"
  shows "\<exists>u. resolveDownloadUrl f owner repo b = Some u
            \<and> snd (fetchFileContent fetch tr f owner repo b h) = tr @ [u]"
proof -
  from assms obtain u where u: "resolveDownloadUrl f owner repo b = Some u" "u \<noteq> []"
    by (cases "resolveDownloadUrl f owner repo b") (auto simp: truthy_def)
  then show ?thesis using fetchFileContent_requests [OF u] by simp
qed

subsection \<open>Truncation\<close>

text \<open>
  Claim C2. When the download URL of a file is resolved and the request is answered with a
  success status and the text \<open>t\<close>: if \<open>t\<close> is longer than the cap of 20000 characters, the
  Content Fetcher returns the first 20000 characters followed by the truncation marker, a
  content of length exactly the cap plus the length of the marker, and no error; if \<open>t\<close> is
  at most as long as the cap, it returns \<open>t\<close> unchanged and no error.
\<close>

theorem truncation_exact:
  assumes "resolveDownloadUrl f owner repo defaultBranch = Some u" "u \<noteq> []"
    and "fetch tr u headers = Resolved r" "ok r" "body r = Inr t"
  shows "(length t > MAX_FILE_CONTENT_LENGTH \<longrightarrow>
            fst (fetchFileContent fetch tr f owner repo defaultBranch headers)
              = (Some (take MAX_FILE_CONTENT_LENGTH t @ truncation_marker), None)
            \<and> length (take MAX_FILE_CONTENT_LENGTH t @ truncation_marker)
                = MAX_FILE_CONTENT_LENGTH + length truncation_marker)
         \<and> (length t \<le> MAX_FILE_CONTENT_LENGTH \<longrightarrow>
              fst (fetchFileContent fetch tr f owner repo defaultBranch headers) = (Some t, None))"
  using assms
    fetchFileContent_ok [where f = f and owner = owner and repo = repo
      and defaultBranch = defaultBranch and u = u and fetch = fetch and tr = tr
      and headers = headers and r = r and t = t]
  by simp

theorem truncation_exact_witness:
  "resolveDownloadUrl (mk_file ''big.txt'' ''big.txt'' None) ''acme'' ''widget'' ''main''
       = Some ''https://raw.example/big.txt''
   \<and> text_endpoint (replicate 20001 CHR ''x'') [] ''https://raw.example/big.txt'' []
       = Resolved \<lparr>status = 200, statusText = ''OK'', body = Inr (replicate 20001 CHR ''x'')\<rparr>
   \<and> ok \<lparr>status = 200, statusText = ''OK'', body = Inr (replicate 20001 CHR ''x'')\<rparr>
   \<and> length (replicate 20001 CHR ''x'') > MAX_FILE_CONTENT_LENGTH
   \<and> fst (fetchFileContent (text_endpoint (replicate 20001 CHR ''x'')) []
             (mk_file ''big.txt'' ''big.txt'' None) ''acme'' ''widget'' ''main'' [])
       = (Some (replicate 20000 CHR ''x'' @ truncation_marker), None)
   \<and> length (replicate 20000 CHR ''x'' @ truncation_marker) = 20029"
proof -
  have u: "resolveDownloadUrl (mk_file ''big.txt'' ''big.txt'' None) ''acme'' ''widget'' ''main''
             = Some ''https://raw.example/big.txt''"
    by (simp add: resolveDownloadUrl_def mk_file_def)
  have r: "text_endpoint (replicate 20001 CHR ''x'') [] ''https://raw.example/big.txt'' []
       = Resolved \<lparr>status = 200, statusText = ''OK'', body = Inr (replicate 20001 CHR ''x'')\<rparr>"
    by (simp add: text_endpoint_def)
  have k: "ok \<lparr>status = 200, statusText = ''OK'', body = Inr (replicate 20001 CHR ''x'')\<rparr>"
    by (simp add: ok_def)
  from truncation_exact [where fetch = "text_endpoint (replicate 20001 CHR ''x'')" and tr = "[]"
      and headers = "[]" and u = "''https://raw.example/big.txt''", OF u _ r k] u r k
  show ?thesis
    by (simp add: MAX_FILE_CONTENT_LENGTH_def truncation_marker_def)
qed

subsection \<open>Resolving the download URL\<close>

text \<open>
  Against claim C3 as it is written. An entry with a path, without a download URL of its own
  and without a \<open>sha\<close>: no URL is built from owner, repository, branch and path, and the
  error of the missing URL is returned without a request.
\<close>

theorem no_sha_no_url_counterexample:
  "path no_sha_file \<noteq> [] \<and> download_url no_sha_file = None
   \<and> fetchFileContent (text_endpoint ''x'') [] no_sha_file ''acme'' ''widget'' ''main'' []
       = ((None, Some ''No download URL could be constructed for file: a.txt''), [])"
  by (simp add: no_sha_file_def fetchFileContent_def resolveDownloadUrl_def)

text \<open>
  Claim C3, as the code has it. An entry with a path, no download URL of its own and a
  \<open>sha\<close> is requested at the URL built from owner, repository, branch and the escaped path;
  an entry with a download URL of its own is requested there; and the error of the missing
  URL is returned with no request made exactly when the entry has no download URL of its own
  and lacks a \<open>sha\<close> or a path.
\<close>

theorem url_resolution:
  "(path f \<noteq> [] \<and> \<not> truthy (download_url f) \<and> truthy (sha f) \<longrightarrow>
      snd (fetchFileContent fetch tr f owner repo b h)
        = tr @ [''https://raw.githubusercontent.com/'' @ owner @ ''/'' @ repo @ ''/'' @ b @ ''/''
                  @ encodeURIComponent (path f)])
   \<and> (truthy (download_url f) \<longrightarrow>
        (\<exists>u. download_url f = Some u
              \<and> snd (fetchFileContent fetch tr f owner repo b h) = tr @ [u]))
   \<and> (fetchFileContent fetch tr f owner repo b h
          = ((None, Some (''No download URL could be constructed for file: '' @ path f)), tr)
        \<longleftrightarrow> \<not> truthy (download_url f) \<and> (\<not> truthy (sha f) \<or> path f = []))"
proof (intro conjI impI)
  assume a: "path f \<noteq> [] \<and> \<not> truthy (download_url f) \<and> truthy (sha f)"
  then have "resolveDownloadUrl f owner repo b = Some (raw_url owner repo b (path f))"
    by (simp add: resolveDownloadUrl_def)
  from fetchFileContent_requests [OF this raw_url_not_Nil]
  show "snd (fetchFileContent fetch tr f owner repo b h)
        = tr @ [''https://raw.githubusercontent.com/'' @ owner @ ''/'' @ repo @ ''/'' @ b @ ''/''
                  @ encodeURIComponent (path f)]"
    by (simp add: raw_url_def)
next
  assume a: "truthy (download_url f)"
  then obtain u where u: "download_url f = Some u" "u \<noteq> []"
    by (cases "download_url f") auto
  then have "resolveDownloadUrl f owner repo b = Some u"
    by (simp add: resolveDownloadUrl_def)
  from fetchFileContent_requests [OF this u(2)] u(1)
  show "\<exists>u. download_url f = Some u
              \<and> snd (fetchFileContent fetch tr f owner repo b h) = tr @ [u]"
    by simp
next
  show "fetchFileContent fetch tr f owner repo b h
          = ((None, Some (''No download URL could be constructed for file: '' @ path f)), tr)
        \<longleftrightarrow> \<not> truthy (download_url f) \<and> (\<not> truthy (sha f) \<or> path f = [])"
  proof (cases "truthy (resolveDownloadUrl f owner repo b)")
    case True
    from fetchFileContent_requests_truthy [OF True, of fetch tr h]
    have "snd (fetchFileContent fetch tr f owner repo b h) \<noteq> tr" by auto
    then have "fetchFileContent fetch tr f owner repo b h
          \<noteq> ((None, Some (''No download URL could be constructed for file: '' @ path f)), tr)"
      by auto
    with True show ?thesis by (auto simp: resolveDownloadUrl_truthy)
  next
    case False
    from fetchFileContent_no_url [OF False] False show ?thesis
      by (auto simp: resolveDownloadUrl_truthy)
  qed
qed

theorem url_resolution_witness:
  "path sha_only_file \<noteq> [] \<and> \<not> truthy (download_url sha_only_file) \<and> truthy (sha sha_only_file)
   \<and> snd (fetchFileContent (text_endpoint ''x'') [] sha_only_file ''acme'' ''widget'' ''main'' [])
       = [''https://raw.githubusercontent.com/acme/widget/main/src%2Fa.ts'']
   \<and> \<not> truthy (download_url no_sha_file) \<and> \<not> truthy (sha no_sha_file)
   \<and> fetchFileContent (text_endpoint ''x'') [] no_sha_file ''acme'' ''widget'' ''main'' []
       = ((None, Some ''No download URL could be constructed for file: a.txt''), [])"
proof -
  have e: "encodeURIComponent ''src/a.ts'' = ''src%2Fa.ts''"
    by (simp add: encodeURIComponent_def encode_unit_def uriUnreserved_def percent_byte_def
                  hex_digit_def)
  have a: "path sha_only_file \<noteq> [] \<and> \<not> truthy (download_url sha_only_file)
             \<and> truthy (sha sha_only_file)"
    by (simp add: sha_only_file_def)
  have b: "\<not> truthy (download_url no_sha_file) \<and> (\<not> truthy (sha no_sha_file) \<or> path no_sha_file = [])"
    by (simp add: no_sha_file_def)
  from url_resolution [where f = sha_only_file and fetch = "text_endpoint ''x''" and tr = "[]"
      and owner = "''acme''" and repo = "''widget''" and b = "''main''" and h = "[]"] a
  have 1: "snd (fetchFileContent (text_endpoint ''x'') [] sha_only_file ''acme'' ''widget'' ''main'' [])
       = [''https://raw.githubusercontent.com/acme/widget/main/src%2Fa.ts'']"
    by (simp add: e sha_only_file_def)
  from url_resolution [where f = no_sha_file and fetch = "text_endpoint ''x''" and tr = "[]"
      and owner = "''acme''" and repo = "''widget''" and b = "''main''" and h = "[]"] b
  have 2: "fetchFileContent (text_endpoint ''x'') [] no_sha_file ''acme'' ''widget'' ''main'' []
       = ((None, Some ''No download URL could be constructed for file: a.txt''), [])"
    by (simp add: no_sha_file_def)
  from a b 1 2 show ?thesis by (simp add: no_sha_file_def)
qed

subsection \<open>The classifier\<close>

text \<open>
  Claim C5. An entry whose name is, up to the case of its letters, \<open>README\<close> alone or with
  one of the suffixes \<open>.md\<close>, \<open>.rst\<close>, \<open>.txt\<close>, \<open>.markdown\<close> is given tier 1, whatever its
  path is.
\<close>

theorem readme_tier_1:
  assumes "map ascii_lower (name f)
             \<in> set [''readme'', ''readme.md'', ''readme.rst'', ''readme.txt'', ''readme.markdown'']"
  shows "getFilePriority (f\<lparr>path := p\<rparr>) = 1"
  using assms by (simp add: getFilePriority_def README_FILES_REGEX_iff Let_def)

theorem readme_tier_1_witness:
  "map ascii_lower (name (mk_file ''ReadMe.MD'' ''ReadMe.MD'' None))
     \<in> set [''readme'', ''readme.md'', ''readme.rst'', ''readme.txt'', ''readme.markdown'']
   \<and> getFilePriority ((mk_file ''ReadMe.MD'' ''ReadMe.MD'' None)\<lparr>path := ''tests/docs/ReadMe.MD''\<rparr>) = 1"
proof -
  have h: "map ascii_lower (name (mk_file ''ReadMe.MD'' ''ReadMe.MD'' None))
     \<in> set [''readme'', ''readme.md'', ''readme.rst'', ''readme.txt'', ''readme.markdown'']"
    by (simp add: mk_file_def ascii_lower_def)
  from h readme_tier_1 [OF h, of "''tests/docs/ReadMe.MD''"] show ?thesis by simp
qed

lemma selection_step_ok:
  assumes "fetchedContentCount s < MAX_FILES_FOR_CONTENT_FETCH"
    and "\<not> (tooLarge f \<and> \<not> isPriorityFile f)"
    and "resolveDownloadUrl f owner repo b = Some u" "u \<noteq> []"
    and "fetch (trace s) u h = Resolved r" "ok r" "body r = Inr t"
    and "length t \<le> MAX_FILE_CONTENT_LENGTH"
  shows "selection_step fetch owner repo b h s f =
           s\<lparr>trace := trace s @ [u],
             repoContents := repoContents s @ [f\<lparr>content := Some t\<rparr>],
             fetchedContentCount :=
               (if t = [] then fetchedContentCount s else fetchedContentCount s + 1)\<rparr>"
proof -
  have "fetchFileContent fetch (trace s) f owner repo b h = ((Some t, None), trace s @ [u])"
    using fetchFileContent_ok [where fetch = fetch and tr = "trace s" and headers = h
        and u = u and r = r and t = t and owner = owner and repo = repo and defaultBranch = b]
      assms by simp
  then show ?thesis
    using assms(1,2) by (auto simp: selection_step_def)
qed

lemma selection_step_too_large:
  assumes "fetchedContentCount s < MAX_FILES_FOR_CONTENT_FETCH"
    and "tooLarge f" "\<not> isPriorityFile f"
  shows "selection_step fetch owner repo b h s f =
           s\<lparr>repoContents := repoContents s @ [f\<lparr>content := None, error := Some (tooLargeError f)\<rparr>]\<rparr>"
  using assms by (simp add: selection_step_def)

lemma mem_final_output:
  assumes "e \<in> set (repoContents s)"
  shows "e \<in> set (Array_sort byPriority
                   (repoContents (selection_loop fetch owner repo b h s rest)))"
  using assms selection_loop_grows [of s fetch owner repo b h rest]
  by (auto simp: set_Array_sort dest: set_mono_prefix)

lemma too_large_in_message:
  "includes_str (''File too large to fetch content ('' @ x @ '' bytes). Not a priority file.'')
     ''too large''"
proof -
  have "''File too large to fetch content ('' @ x @ '' bytes). Not a priority file.''
          = ''File '' @ ''too large'' @ ('' to fetch content ('' @ x @ '' bytes). Not a priority file.'')"
    by simp
  then show ?thesis
    unfolding includes_str_def by (metis sublist_appendI)
qed

subsection \<open>Files too large to fetch\<close>

text \<open>
  Claim C7. While fewer than 12 contents have been fetched, a file whose size exceeds three
  times the cap of 20000 and whose name is none of a README, manifest or license name is
  not fetched: the step makes no request and leaves the counter as it is, and appends the
  entry with no content and the error \<open>File too large to fetch content (n bytes). Not a
  priority file.\<close>, which contains \<open>too large\<close>; the entry is in the sorted output whatever
  files follow.
\<close>

theorem too_large_recorded:
  assumes "fetchedContentCount s < MAX_FILES_FOR_CONTENT_FETCH"
    and "size_bytes f = Some n" and "n > 3 * MAX_FILE_CONTENT_LENGTH"
    and "\<not> README_FILES_REGEX (name f)" and "\<not> MANIFEST_FILES_REGEX (name f)"
    and "\<not> LICENSE_FILES_REGEX (name f)"
  shows "selection_step fetch owner repo b h s f
           = s\<lparr>repoContents := repoContents s
                  @ [f\<lparr>content := None,
                       error := Some (''File too large to fetch content ('' @ Number_toString n
                                        @ '' bytes). Not a priority file.'')\<rparr>]\<rparr>
         \<and> includes_str (''File too large to fetch content ('' @ Number_toString n
                           @ '' bytes). Not a priority file.'') ''too large''
         \<and> f\<lparr>content := None,
              error := Some (''File too large to fetch content ('' @ Number_toString n
                               @ '' bytes). Not a priority file.'')\<rparr>
             \<in> set (Array_sort byPriority
                      (repoContents (selection_loop fetch owner repo b h
                                       (selection_step fetch owner repo b h s f) rest)))"
proof -
  have big: "tooLarge f" using assms(2,3) by (simp add: tooLarge_def)
  have np: "\<not> isPriorityFile f" using assms(4-6) by (simp add: isPriorityFile_def)
  have msg: "tooLargeError f = ''File too large to fetch content ('' @ Number_toString n
                                 @ '' bytes). Not a priority file.''"
    using assms(2) by (simp add: tooLargeError_def)
  have st: "selection_step fetch owner repo b h s f
           = s\<lparr>repoContents := repoContents s
                  @ [f\<lparr>content := None,
                       error := Some (''File too large to fetch content ('' @ Number_toString n
                                        @ '' bytes). Not a priority file.'')\<rparr>]\<rparr>"
    using selection_step_too_large [OF assms(1) big np] msg by simp
  have "f\<lparr>content := None,
              error := Some (''File too large to fetch content ('' @ Number_toString n
                               @ '' bytes). Not a priority file.'')\<rparr>
          \<in> set (repoContents (selection_step fetch owner repo b h s f))"
    by (simp add: st)
  from st too_large_in_message mem_final_output [OF this] show ?thesis by simp
qed

theorem too_large_recorded_witness:
  "fetchedContentCount (initial_state []) < MAX_FILES_FOR_CONTENT_FETCH
   \<and> size_bytes data_bin = Some 500000 \<and> 500000 > 3 * MAX_FILE_CONTENT_LENGTH
   \<and> \<not> README_FILES_REGEX (name data_bin) \<and> \<not> MANIFEST_FILES_REGEX (name data_bin)
   \<and> \<not> LICENSE_FILES_REGEX (name data_bin)
   \<and> selection_step (text_endpoint ''x'') ''acme'' ''widget'' ''main'' [] (initial_state []) data_bin
       = \<lparr>trace = [],
          repoContents =
            [data_bin\<lparr>content := None,
                      error := Some ''File too large to fetch content (500000 bytes). Not a priority file.''\<rparr>],
          fetchedContentCount = 0\<rparr>"
proof -
  have c: "fetchedContentCount (initial_state []) < MAX_FILES_FOR_CONTENT_FETCH"
    by (simp add: initial_state_def MAX_FILES_FOR_CONTENT_FETCH_def)
  have z: "size_bytes data_bin = Some 500000" by (simp add: data_bin_def mk_file_def)
  have g: "500000 > 3 * MAX_FILE_CONTENT_LENGTH" by (simp add: MAX_FILE_CONTENT_LENGTH_def)
  have n: "name data_bin = ''data.bin''" by (simp add: data_bin_def mk_file_def)
  have r: "\<not> README_FILES_REGEX (name data_bin)"
    by (simp add: n README_FILES_REGEX_iff ascii_lower_def)
  have m: "\<not> MANIFEST_FILES_REGEX (name data_bin)"
    by (simp add: n MANIFEST_FILES_REGEX_iff ascii_lower_def)
  have l: "\<not> LICENSE_FILES_REGEX (name data_bin)"
    by (simp add: n LICENSE_FILES_REGEX_iff ascii_lower_def)
  have d: "Number_toString 500000 = ''500000''"
    by (simp add: Number_toString.simps digit_char_def)
  from too_large_recorded [OF c z g r m l, of "text_endpoint ''x''" "''acme''" "''widget''" "''main''" "[]" "[]"]
  have "selection_step (text_endpoint ''x'') ''acme'' ''widget'' ''main'' [] (initial_state []) data_bin
       = (initial_state [])\<lparr>repoContents := repoContents (initial_state [])
            @ [data_bin\<lparr>content := None,
                      error := Some ''File too large to fetch content (500000 bytes). Not a priority file.''\<rparr>]\<rparr>"
    by (simp add: d)
  with c z g r m l show ?thesis by (simp add: initial_state_def)
qed

subsection \<open>Empty contents\<close>

text \<open>
  Claim C10. While fewer than 12 contents have been fetched, a file that is fetched and
  whose request is answered with a success status and the empty text is recorded with the
  empty content present and no error, and the counter of fetched contents stays as it was.
\<close>

theorem empty_content_keeps_budget:
  assumes "fetchedContentCount s < MAX_FILES_FOR_CONTENT_FETCH"
    and "\<not> (tooLarge f \<and> \<not> isPriorityFile f)"
    and "resolveDownloadUrl f owner repo b = Some u" and "u \<noteq> []"
    and "fetch (trace s) u h = Resolved r" and "ok r" and "body r = Inr []"
    and "error f = None"
  shows "selection_step fetch owner repo b h s f
           = s\<lparr>trace := trace s @ [u], repoContents := repoContents s @ [f\<lparr>content := Some []\<rparr>]\<rparr>
         \<and> content (f\<lparr>content := Some []\<rparr>) = Some []
         \<and> error (f\<lparr>content := Some []\<rparr>) = None
         \<and> fetchedContentCount (selection_step fetch owner repo b h s f) = fetchedContentCount s"
  using selection_step_ok [where fetch = fetch and s = s and h = h and u = u and r = r
      and t = "[]" and f = f and owner = owner and repo = repo and b = b] assms
  by simp

theorem empty_content_keeps_budget_witness:
  "fetchedContentCount (initial_state []) < MAX_FILES_FOR_CONTENT_FETCH
   \<and> \<not> (tooLarge (mk_file ''a'' ''a'' None) \<and> \<not> isPriorityFile (mk_file ''a'' ''a'' None))
   \<and> resolveDownloadUrl (mk_file ''a'' ''a'' None) ''acme'' ''widget'' ''main''
       = Some ''https://raw.example/a''
   \<and> text_endpoint [] (trace (initial_state [])) ''https://raw.example/a'' []
       = Resolved \<lparr>status = 200, statusText = ''OK'', body = Inr []\<rparr>
   \<and> ok \<lparr>status = 200, statusText = ''OK'', body = Inr ''''\<rparr>
   \<and> error (mk_file ''a'' ''a'' None) = None
   \<and> selection_step (text_endpoint []) ''acme'' ''widget'' ''main'' [] (initial_state [])
         (mk_file ''a'' ''a'' None)
       = \<lparr>trace = [''https://raw.example/a''],
          repoContents = [(mk_file ''a'' ''a'' None)\<lparr>content := Some []\<rparr>],
          fetchedContentCount = 0\<rparr>"
proof -
  have c: "fetchedContentCount (initial_state []) < MAX_FILES_FOR_CONTENT_FETCH"
    by (simp add: initial_state_def MAX_FILES_FOR_CONTENT_FETCH_def)
  have t: "\<not> (tooLarge (mk_file ''a'' ''a'' None) \<and> \<not> isPriorityFile (mk_file ''a'' ''a'' None))"
    by (simp add: tooLarge_def mk_file_def)
  have u: "resolveDownloadUrl (mk_file ''a'' ''a'' None) ''acme'' ''widget'' ''main''
       = Some ''https://raw.example/a''"
    by (simp add: resolveDownloadUrl_def mk_file_def)
  have r: "text_endpoint [] (trace (initial_state [])) ''https://raw.example/a'' []
       = Resolved \<lparr>status = 200, statusText = ''OK'', body = Inr []\<rparr>"
    by (simp add: text_endpoint_def)
  have k: "ok \<lparr>status = 200, statusText = ''OK'', body = Inr ''''\<rparr>"
    by (simp add: ok_def)
  have e: "error (mk_file ''a'' ''a'' None) = None" by (simp add: mk_file_def)
  from empty_content_keeps_budget [where fetch = "text_endpoint []" and s = "initial_state []"
      and h = "[]" and u = "''https://raw.example/a''", OF c t u _ r k _ e]
  have "selection_step (text_endpoint []) ''acme'' ''widget'' ''main'' [] (initial_state [])
         (mk_file ''a'' ''a'' None)
       = (initial_state [])\<lparr>trace := trace (initial_state []) @ [''https://raw.example/a''],
            repoContents := repoContents (initial_state [])
               @ [(mk_file ''a'' ''a'' None)\<lparr>content := Some []\<rparr>]\<rparr>"
    by simp
  with c t u r k e show ?thesis by (simp add: initial_state_def)
qed

subsection \<open>Stability of the tier sort\<close>

text \<open>
  Claim C8. For every tier \<open>k\<close>, the entries of tier \<open>k\<close> stand in the sorted \<open>filesOnly\<close> in
  the order in which they stand in the listing, so two entries of the same tier keep their
  relative order; and \<open>filesOnly\<close> is sorted by tier.
\<close>

theorem tier_sort_stable:
  "filter (\<lambda>f. getFilePriority f = k) (filesOnly allFiles)
     = filter (\<lambda>f. getFilePriority f = k)
         (filter (\<lambda>f. type f = ''file'' \<and> path f \<noteq> []) allFiles)
   \<and> sorted (map getFilePriority (filesOnly allFiles))"
  by (simp only: filesOnly_def Array_sort_byPriority sort_key_stable sorted_sort_key simp_thms)

lemma selection_step_text:
  assumes "fetchedContentCount s < MAX_FILES_FOR_CONTENT_FETCH"
    and "\<not> tooLarge f" and "truthy (download_url f)"
    and "length t \<le> MAX_FILE_CONTENT_LENGTH"
  shows "repoContents (selection_step (text_endpoint t) owner repo b h s f)
           = repoContents s @ [f\<lparr>content := Some t\<rparr>]
         \<and> fetchedContentCount (selection_step (text_endpoint t) owner repo b h s f)
           = (if t = [] then fetchedContentCount s else fetchedContentCount s + 1)"
proof -
  from assms(3) obtain u where u: "download_url f = Some u" "u \<noteq> []"
    by (cases "download_url f") auto
  then have r: "resolveDownloadUrl f owner repo b = Some u"
    by (simp add: resolveDownloadUrl_def)
  have "selection_step (text_endpoint t) owner repo b h s f =
           s\<lparr>trace := trace s @ [u],
             repoContents := repoContents s @ [f\<lparr>content := Some t\<rparr>],
             fetchedContentCount :=
               (if t = [] then fetchedContentCount s else fetchedContentCount s + 1)\<rparr>"
    using assms(1,2,4) r u(2)
    by (intro selection_step_ok [where u = u and r = "\<lparr>status = 200, statusText = ''OK'', body = Inr t\<rparr>"])
       (simp_all add: text_endpoint_def ok_def)
  then show ?thesis by simp
qed

lemma selection_loop_empty_text:
  assumes "\<forall>f\<in>set fs. \<not> tooLarge f \<and> truthy (download_url f)"
    and "fetchedContentCount s < MAX_FILES_FOR_CONTENT_FETCH"
  shows "repoContents (selection_loop (text_endpoint []) owner repo b h s fs)
           = repoContents s @ map (\<lambda>f. f\<lparr>content := Some []\<rparr>) fs"
  using assms
proof (induction fs arbitrary: s)
  case Nil
  show ?case by simp
next
  case (Cons f fs)
  have st: "repoContents (selection_step (text_endpoint []) owner repo b h s f)
              = repoContents s @ [f\<lparr>content := Some []\<rparr>]
            \<and> fetchedContentCount (selection_step (text_endpoint []) owner repo b h s f)
              = fetchedContentCount s"
    using selection_step_text [of s f "[]" owner repo b h] Cons.prems by simp
  have "repoContents (selection_loop (text_endpoint []) owner repo b h
                        (selection_step (text_endpoint []) owner repo b h s f) fs)
          = repoContents (selection_step (text_endpoint []) owner repo b h s f)
              @ map (\<lambda>f. f\<lparr>content := Some []\<rparr>) fs"
    using Cons.prems st by (intro Cons.IH) simp_all
  with st show ?case by simp
qed

lemma selection_loop_text_count:
  assumes "\<forall>f\<in>set fs. \<not> tooLarge f \<and> truthy (download_url f)"
    and "t \<noteq> []" and "length t \<le> MAX_FILE_CONTENT_LENGTH"
    and "fetchedContentCount s + length fs \<le> MAX_FILES_FOR_CONTENT_FETCH"
  shows "fetchedContentCount (selection_loop (text_endpoint t) owner repo b h s fs)
           = fetchedContentCount s + length fs"
  using assms
proof (induction fs arbitrary: s)
  case Nil
  show ?case by simp
next
  case (Cons f fs)
  have st: "fetchedContentCount (selection_step (text_endpoint t) owner repo b h s f)
              = fetchedContentCount s + 1"
    using selection_step_text [of s f t owner repo b h] Cons.prems by simp
  have "fetchedContentCount (selection_loop (text_endpoint t) owner repo b h
                        (selection_step (text_endpoint t) owner repo b h s f) fs)
          = fetchedContentCount (selection_step (text_endpoint t) owner repo b h s f) + length fs"
    using Cons.prems st by (intro Cons.IH) simp_all
  with st show ?case by simp
qed

lemma set_filesOnly: "set (filesOnly allFiles) \<subseteq> set allFiles"
  by (auto simp: filesOnly_def set_Array_sort)

lemma length_filesOnly:
  "length (filesOnly allFiles) = length (filter (\<lambda>f. type f = ''file'' \<and> path f \<noteq> []) allFiles)"
  by (simp add: filesOnly_def Array_sort_byPriority)

lemma distinct_paths_filesOnly:
  assumes "distinct (map path allFiles)"
  shows "distinct (map path (filesOnly allFiles))"
proof -
  from assms have "distinct allFiles" and "inj_on path (set allFiles)"
    by (simp_all add: distinct_map)
  then show ?thesis
    by (auto simp: distinct_map filesOnly_def Array_sort_byPriority intro: inj_on_subset)
qed

lemma selection_step_paths:
  "path ` set (repoContents (selection_step fetch owner repo b h s f))
     \<subseteq> insert (path f) (path ` set (repoContents s))"
  by (auto simp: selection_step_def minimalFile_def split: prod.splits if_splits)

lemma selection_loop_paths:
  "path ` set (repoContents (selection_loop fetch owner repo b h s fs))
     \<subseteq> path ` set (repoContents s) \<union> path ` set fs"
proof (induction fs arbitrary: s)
  case Nil
  show ?case by simp
next
  case (Cons f fs)
  from Cons.IH [of "selection_step fetch owner repo b h s f"]
    selection_step_paths [of fetch owner repo b h s f]
  show ?case by auto
qed

subsection \<open>The budget\<close>

text \<open>
  Against claim C1 as it is written. Thirteen files whose contents are fetched with success and are empty: the output has
  thirteen entries with a content present and no error, more than the budget of 12.
\<close>

theorem thirteen_empty_files_counterexample:
  "length (filter carriesFetchedContent
             (fst (selectRepoContents (text_endpoint []) ''acme'' ''widget'' ''main'' [] []
                     thirteen_files))) = 13
   \<and> \<not> 13 \<le> MAX_FILES_FOR_CONTENT_FETCH"
proof -
  have all: "\<forall>f\<in>set thirteen_files. \<not> tooLarge f \<and> truthy (download_url f) \<and> error f = None"
    by (simp add: thirteen_files_def mk_file_def tooLarge_def)
  have len: "length (filesOnly thirteen_files) = 13"
    by (simp add: length_filesOnly thirteen_files_def mk_file_def)
  have sub: "\<forall>f\<in>set (filesOnly thirteen_files).
               \<not> tooLarge f \<and> truthy (download_url f) \<and> error f = None"
    using all set_filesOnly [of thirteen_files] by blast
  have c0: "fetchedContentCount (initial_state []) < MAX_FILES_FOR_CONTENT_FETCH"
    by (simp add: initial_state_def MAX_FILES_FOR_CONTENT_FETCH_def)
  have rc: "repoContents (selection_loop (text_endpoint []) ''acme'' ''widget'' ''main'' []
                            (initial_state []) (filesOnly thirteen_files))
              = map (\<lambda>f. f\<lparr>content := Some []\<rparr>) (filesOnly thirteen_files)"
    using selection_loop_empty_text [OF _ c0, of "filesOnly thirteen_files"] sub
    by (simp add: initial_state_def)
  have "filter carriesFetchedContent (map (\<lambda>f. f\<lparr>content := Some []\<rparr>) (filesOnly thirteen_files))
          = map (\<lambda>f. f\<lparr>content := Some []\<rparr>) (filesOnly thirteen_files)"
    using sub by (simp add: filter_map carriesFetchedContent_def o_def)
  then have "length (filter carriesFetchedContent
             (fst (selectRepoContents (text_endpoint []) ''acme'' ''widget'' ''main'' [] []
                     thirteen_files))) = 13"
    by (simp add: selectRepoContents_def Let_def filter_Array_sort_length rc len)
  then show ?thesis by (simp add: MAX_FILES_FOR_CONTENT_FETCH_def)
qed

text \<open>
  Claim C1, as the code has it. In the output of every run, at most 12 entries have a
  content that is not empty. A step adds one to the counter exactly when the budget is not
  used up, the file is not skipped as too large, and the Content Fetcher returns a content
  that is not empty with no error; otherwise, so after every failed attempt and after every
  empty content, the counter is unchanged.
\<close>

theorem budget_bounds_nonempty_content:
  "length (filter (\<lambda>e. truthy (content e))
             (fst (selectRepoContents fetch owner repo b h tr allFiles)))
     \<le> MAX_FILES_FOR_CONTENT_FETCH
   \<and> fetchedContentCount (selection_step fetch owner repo b h s f) =
       (if fetchedContentCount s < MAX_FILES_FOR_CONTENT_FETCH
           \<and> \<not> (tooLarge f \<and> \<not> isPriorityFile f)
           \<and> truthy (fst (fst (fetchFileContent fetch (trace s) f owner repo b h)))
           \<and> \<not> truthy (snd (fst (fetchFileContent fetch (trace s) f owner repo b h)))
        then fetchedContentCount s + 1 else fetchedContentCount s)"
  using budget_bound [of fetch owner repo b h tr allFiles]
    selection_step_count [of fetch owner repo b h s f]
  by blast

lemma getFilePriority_README:
  "README_FILES_REGEX (name f) \<Longrightarrow> getFilePriority f = 1"
  by (simp add: getFilePriority_def Let_def)

lemma Array_sort_sorted_id:
  "sorted (map getFilePriority xs) \<Longrightarrow> Array_sort byPriority xs = xs"
  by (simp add: Array_sort_byPriority sort_key_id_if_sorted)

lemma minimalFile_no_error:
  "error f = None \<Longrightarrow> minimalFile f = f\<lparr>content := None, error := Some limitError\<rparr>"
  by (simp add: minimalFile_def)

lemma path_minimalFile [simp]: "path (minimalFile f) = path f"
  by (simp add: minimalFile_def)

subsection \<open>After the budget is used up\<close>

text \<open>
  What the loop does once the budget is used up. Let the sorted \<open>filesOnly\<close> be
  \<open>pre @ rest\<close>, with the budget used up once the loop has gone through \<open>pre\<close>, and let no
  entry of the listing carry an error. Then the output is the sorted list of what the loop
  had recorded after \<open>pre\<close> followed by one entry for each file of \<open>rest\<close> that passes the
  test of the source, a README, manifest or license name or a path that ends, as it is
  written, with a source extension; that entry is the file with no content and the error
  of the limit; a file of \<open>rest\<close> that fails the test has no entry in the output; no
  request is made for \<open>rest\<close>; and the output is sorted by tier.
\<close>

lemma budget_exhausted_listing:
  assumes "filesOnly allFiles = pre @ rest"
    and "\<not> fetchedContentCount (selection_loop fetch owner repo b h (initial_state tr) pre)
             < MAX_FILES_FOR_CONTENT_FETCH"
    and "\<forall>f\<in>set allFiles. error f = None"
  shows "fst (selectRepoContents fetch owner repo b h tr allFiles)
           = Array_sort byPriority
               (repoContents (selection_loop fetch owner repo b h (initial_state tr) pre)
                  @ map (\<lambda>f. f\<lparr>content := None, error := Some limitError\<rparr>)
                      (filter listedOverBudget rest))
         \<and> (\<forall>f\<in>set rest. listedOverBudget f \<longrightarrow>
               f\<lparr>content := None, error := Some limitError\<rparr>
                 \<in> set (fst (selectRepoContents fetch owner repo b h tr allFiles)))
         \<and> (\<forall>f\<in>set rest. \<not> listedOverBudget f \<and> distinct (map path allFiles) \<longrightarrow>
               path f \<notin> path ` set (fst (selectRepoContents fetch owner repo b h tr allFiles)))
         \<and> snd (selectRepoContents fetch owner repo b h tr allFiles)
             = trace (selection_loop fetch owner repo b h (initial_state tr) pre)
         \<and> sorted (map getFilePriority (fst (selectRepoContents fetch owner repo b h tr allFiles)))"
proof -
  define s1 where "s1 = selection_loop fetch owner repo b h (initial_state tr) pre"
  define out where "out = fst (selectRepoContents fetch owner repo b h tr allFiles)"
  have ex: "\<not> fetchedContentCount s1 < MAX_FILES_FOR_CONTENT_FETCH"
    using assms(2) by (simp add: s1_def)
  have rest_sub: "set rest \<subseteq> set allFiles"
    using set_filesOnly [of allFiles] assms(1) by auto
  have mm: "map minimalFile (filter listedOverBudget rest)
              = map (\<lambda>f. f\<lparr>content := None, error := Some limitError\<rparr>)
                  (filter listedOverBudget rest)"
    using rest_sub assms(3) by (intro map_cong) (auto simp: minimalFile_no_error)
  have loop: "selection_loop fetch owner repo b h (initial_state tr) (filesOnly allFiles)
                = s1\<lparr>repoContents := repoContents s1
                        @ map (\<lambda>f. f\<lparr>content := None, error := Some limitError\<rparr>)
                            (filter listedOverBudget rest)\<rparr>"
    using selection_loop_exhausted [OF ex, of fetch owner repo b h rest]
    by (simp add: assms(1) selection_loop_append s1_def [symmetric] mm)
  have o: "out = Array_sort byPriority
                   (repoContents s1 @ map (\<lambda>f. f\<lparr>content := None, error := Some limitError\<rparr>)
                                        (filter listedOverBudget rest))"
    by (simp add: out_def selectRepoContents_def Let_def loop)
  have tr: "snd (selectRepoContents fetch owner repo b h tr allFiles) = trace s1"
    by (simp add: selectRepoContents_def Let_def loop)
  have so: "sorted (map getFilePriority out)"
    by (simp add: o sorted_Array_sort)
  have listed: "\<forall>f\<in>set rest. listedOverBudget f \<longrightarrow>
                  f\<lparr>content := None, error := Some limitError\<rparr> \<in> set out"
    by (auto simp: o set_Array_sort)
  have absent: "\<forall>f\<in>set rest. \<not> listedOverBudget f \<and> distinct (map path allFiles) \<longrightarrow>
                  path f \<notin> path ` set out"
  proof (intro ballI impI)
    fix f assume f: "f \<in> set rest" and a: "\<not> listedOverBudget f \<and> distinct (map path allFiles)"
    from a have d: "distinct (map path (pre @ rest))"
      using distinct_paths_filesOnly [of allFiles] assms(1) by simp
    have p1: "path ` set (repoContents s1) \<subseteq> path ` set pre"
      using selection_loop_paths [of fetch owner repo b h "initial_state tr" pre]
      by (simp add: s1_def initial_state_def)
    have n1: "path f \<notin> path ` set pre"
      using d f by auto
    have inj: "inj_on path (set rest)"
      using d by (simp add: distinct_map)
    have n2: "path f \<notin> path ` set (filter listedOverBudget rest)"
    proof
      assume "path f \<in> path ` set (filter listedOverBudget rest)"
      then obtain g where g: "g \<in> set rest" "listedOverBudget g" "path g = path f" by auto
      with inj f have "g = f" by (auto dest: inj_onD)
      with g a show False by simp
    qed
    have "path ` set out
            = path ` set (repoContents s1) \<union> path ` set (filter listedOverBudget rest)"
      by (simp add: o set_Array_sort image_Un image_image)
    with p1 n1 n2 show "path f \<notin> path ` set out" by auto
  qed
  from o listed absent tr so show ?thesis
    by (simp add: out_def s1_def)
qed

lemma budget_exhausted_listing_example:
  "filesOnly fourteen_files = take 12 fourteen_files @ drop 12 fourteen_files
   \<and> \<not> fetchedContentCount
          (selection_loop (text_endpoint ''x'') ''acme'' ''widget'' ''main'' [] (initial_state [])
             (take 12 fourteen_files)) < MAX_FILES_FOR_CONTENT_FETCH
   \<and> set (map error fourteen_files) = {None}
   \<and> mk_file ''README.md'' ''m/README.md'' None \<in> set (drop 12 fourteen_files)
   \<and> listedOverBudget (mk_file ''README.md'' ''m/README.md'' None)
   \<and> (mk_file ''README.md'' ''m/README.md'' None)\<lparr>content := None, error := Some limitError\<rparr>
        \<in> set (fst (selectRepoContents (text_endpoint ''x'') ''acme'' ''widget'' ''main'' [] []
                       fourteen_files))
   \<and> mk_file ''notes.txt'' ''notes.txt'' None \<in> set (drop 12 fourteen_files)
   \<and> \<not> listedOverBudget (mk_file ''notes.txt'' ''notes.txt'' None)
   \<and> distinct (map path fourteen_files)
   \<and> path (mk_file ''notes.txt'' ''notes.txt'' None)
        \<notin> path ` set (fst (selectRepoContents (text_endpoint ''x'') ''acme'' ''widget'' ''main'' [] []
                               fourteen_files))"
proof -
  have pr: "\<And>p. getFilePriority (mk_file ''README.md'' p None) = 1"
    by (rule getFilePriority_README) (simp add: README_FILES_REGEX_iff mk_file_def ascii_lower_def)
  have pn: "getFilePriority (mk_file ''notes.txt'' ''notes.txt'' None) = 10"
    by code_simp
  have files: "filter (\<lambda>f. type f = ''file'' \<and> path f \<noteq> []) fourteen_files = fourteen_files"
    by (simp add: fourteen_files_def mk_file_def)
  have "sorted (map getFilePriority fourteen_files)"
    by (simp add: fourteen_files_def pr pn)
  then have fo: "filesOnly fourteen_files = take 12 fourteen_files @ drop 12 fourteen_files"
    by (simp add: filesOnly_def files Array_sort_sorted_id)
  have pre: "\<forall>f\<in>set (take 12 fourteen_files). \<not> tooLarge f \<and> truthy (download_url f)"
    by (simp add: fourteen_files_def mk_file_def tooLarge_def)
  have "fetchedContentCount
          (selection_loop (text_endpoint ''x'') ''acme'' ''widget'' ''main'' [] (initial_state [])
             (take 12 fourteen_files)) = fetchedContentCount (initial_state []) + length (take 12 fourteen_files)"
    by (rule selection_loop_text_count [OF pre])
       (simp_all add: MAX_FILE_CONTENT_LENGTH_def MAX_FILES_FOR_CONTENT_FETCH_def
                      initial_state_def fourteen_files_def)
  then have cnt: "\<not> fetchedContentCount
          (selection_loop (text_endpoint ''x'') ''acme'' ''widget'' ''main'' [] (initial_state [])
             (take 12 fourteen_files)) < MAX_FILES_FOR_CONTENT_FETCH"
    by (simp add: MAX_FILES_FOR_CONTENT_FETCH_def initial_state_def fourteen_files_def)
  have ne': "set (map error fourteen_files) = {None}"
    by (simp add: fourteen_files_def mk_file_def)
  have ne: "\<forall>f\<in>set fourteen_files. error f = None"
    by (simp add: fourteen_files_def mk_file_def)
  have m1: "mk_file ''README.md'' ''m/README.md'' None \<in> set (drop 12 fourteen_files)"
    and m2: "mk_file ''notes.txt'' ''notes.txt'' None \<in> set (drop 12 fourteen_files)"
    by (simp_all add: fourteen_files_def)
  have l1: "listedOverBudget (mk_file ''README.md'' ''m/README.md'' None)"
    by (simp add: listedOverBudget_def README_FILES_REGEX_iff mk_file_def ascii_lower_def)
  have l2: "\<not> listedOverBudget (mk_file ''notes.txt'' ''notes.txt'' None)"
    by code_simp
  have d: "distinct (map path fourteen_files)"
    by (simp add: fourteen_files_def mk_file_def)
  note w = budget_exhausted_listing [OF fo cnt ne]
  from w m1 l1
  have a: "(mk_file ''README.md'' ''m/README.md'' None)\<lparr>content := None, error := Some limitError\<rparr>
        \<in> set (fst (selectRepoContents (text_endpoint ''x'') ''acme'' ''widget'' ''main'' [] []
                       fourteen_files))"
    by blast
  from w m2 l2 d
  have b: "path (mk_file ''notes.txt'' ''notes.txt'' None)
        \<notin> path ` set (fst (selectRepoContents (text_endpoint ''x'') ''acme'' ''widget'' ''main'' [] []
                               fourteen_files))"
    by blast
  from fo cnt ne' m1 m2 l1 l2 d a b show ?thesis by blast
qed

lemma selection_loop_text_contents:
  assumes "\<forall>f\<in>set fs. \<not> tooLarge f \<and> truthy (download_url f)"
    and "t \<noteq> []" and "length t \<le> MAX_FILE_CONTENT_LENGTH"
    and "fetchedContentCount s + length fs \<le> MAX_FILES_FOR_CONTENT_FETCH"
  shows "repoContents (selection_loop (text_endpoint t) owner repo b h s fs)
           = repoContents s @ map (\<lambda>f. f\<lparr>content := Some t\<rparr>) fs"
  using assms
proof (induction fs arbitrary: s)
  case Nil
  show ?case by simp
next
  case (Cons f fs)
  have st: "repoContents (selection_step (text_endpoint t) owner repo b h s f)
              = repoContents s @ [f\<lparr>content := Some t\<rparr>]
            \<and> fetchedContentCount (selection_step (text_endpoint t) owner repo b h s f)
              = fetchedContentCount s + 1"
    using selection_step_text [of s f t owner repo b h] Cons.prems by simp
  have "repoContents (selection_loop (text_endpoint t) owner repo b h
                        (selection_step (text_endpoint t) owner repo b h s f) fs)
          = repoContents (selection_step (text_endpoint t) owner repo b h s f)
              @ map (\<lambda>f. f\<lparr>content := Some t\<rparr>) fs"
    using Cons.prems st by (intro Cons.IH) simp_all
  with st show ?case by simp
qed

text \<open>
  Claim C6 at a listing of twelve README files, all of them fetched, followed by \<open>Z.TS\<close>.
  The classifier lowers the path before it looks for a source extension and gives \<open>Z.TS\<close>
  tier 6, a source file; the branch taken once the budget is used up looks for the
  extension in the path as it is written, finds none, and drops the file: the output is
  the twelve README entries, and no entry has the path \<open>Z.TS\<close>. The same file written
  \<open>z.ts\<close> passes the test of that branch.
\<close>

theorem upper_case_extension_dropped:
  "getFilePriority upper_ts = 6
   \<and> filesOnly readmes_then_upper_ts = take 12 readmes_then_upper_ts @ [upper_ts]
   \<and> fetchedContentCount
         (selection_loop (text_endpoint ''x'') ''acme'' ''widget'' ''main'' [] (initial_state [])
            (take 12 readmes_then_upper_ts)) = MAX_FILES_FOR_CONTENT_FETCH
   \<and> listedOverBudget upper_ts = False
   \<and> listedOverBudget (mk_file ''z.ts'' ''z.ts'' None) = True
   \<and> map path (fst (selectRepoContents (text_endpoint ''x'') ''acme'' ''widget'' ''main'' [] []
                       readmes_then_upper_ts))
       = [''a/README.md'', ''b/README.md'', ''c/README.md'', ''d/README.md'', ''e/README.md'',
          ''f/README.md'', ''g/README.md'', ''h/README.md'', ''i/README.md'', ''j/README.md'',
          ''k/README.md'', ''l/README.md'']"
proof -
  have rn: "\<And>p. README_FILES_REGEX (name (mk_file ''README.md'' p None))"
    by (simp add: README_FILES_REGEX_iff mk_file_def ascii_lower_def)
  have pr: "\<And>p. getFilePriority (mk_file ''README.md'' p None) = 1"
    by (rule getFilePriority_README) (rule rn)
  have pr': "\<And>p c. getFilePriority ((mk_file ''README.md'' p None)\<lparr>content := c\<rparr>) = 1"
    by (rule getFilePriority_README) (simp add: README_FILES_REGEX_iff mk_file_def ascii_lower_def)
  have pz: "getFilePriority upper_ts = 6"
    unfolding upper_ts_def by code_simp
  have lz: "listedOverBudget upper_ts = False"
    unfolding upper_ts_def by code_simp
  have ll: "listedOverBudget (mk_file ''z.ts'' ''z.ts'' None) = True"
    by code_simp
  have files: "filter (\<lambda>f. type f = ''file'' \<and> path f \<noteq> []) readmes_then_upper_ts
                 = readmes_then_upper_ts"
    by (simp add: readmes_then_upper_ts_def upper_ts_def mk_file_def)
  have "sorted (map getFilePriority readmes_then_upper_ts)"
    by (simp add: readmes_then_upper_ts_def pr pz)
  then have fo: "filesOnly readmes_then_upper_ts = readmes_then_upper_ts"
    by (simp add: filesOnly_def files Array_sort_sorted_id)
  have sp: "readmes_then_upper_ts = take 12 readmes_then_upper_ts @ [upper_ts]"
    by (simp add: readmes_then_upper_ts_def)
  have pre: "\<forall>f\<in>set (take 12 readmes_then_upper_ts). \<not> tooLarge f \<and> truthy (download_url f)"
    by (simp add: readmes_then_upper_ts_def mk_file_def tooLarge_def)
  have len: "fetchedContentCount (initial_state []) + length (take 12 readmes_then_upper_ts)
               \<le> MAX_FILES_FOR_CONTENT_FETCH"
    by (simp add: MAX_FILES_FOR_CONTENT_FETCH_def initial_state_def readmes_then_upper_ts_def)
  have x: "''x'' \<noteq> []" "length ''x'' \<le> MAX_FILE_CONTENT_LENGTH"
    by (simp_all add: MAX_FILE_CONTENT_LENGTH_def)
  have cnt: "fetchedContentCount
         (selection_loop (text_endpoint ''x'') ''acme'' ''widget'' ''main'' [] (initial_state [])
            (take 12 readmes_then_upper_ts)) = MAX_FILES_FOR_CONTENT_FETCH"
    using selection_loop_text_count [OF pre x len, of "''acme''" "''widget''" "''main''" "[]"]
    by (simp add: MAX_FILES_FOR_CONTENT_FETCH_def initial_state_def readmes_then_upper_ts_def)
  have rc: "repoContents
         (selection_loop (text_endpoint ''x'') ''acme'' ''widget'' ''main'' [] (initial_state [])
            (take 12 readmes_then_upper_ts))
          = map (\<lambda>f. f\<lparr>content := Some ''x''\<rparr>) (take 12 readmes_then_upper_ts)"
    using selection_loop_text_contents [OF pre x len, of "''acme''" "''widget''" "''main''" "[]"]
    by (simp add: initial_state_def)
  have ex: "\<not> fetchedContentCount
         (selection_loop (text_endpoint ''x'') ''acme'' ''widget'' ''main'' [] (initial_state [])
            (take 12 readmes_then_upper_ts)) < MAX_FILES_FOR_CONTENT_FETCH"
    by (simp add: cnt)
  have loop: "repoContents
         (selection_loop (text_endpoint ''x'') ''acme'' ''widget'' ''main'' [] (initial_state [])
            (filesOnly readmes_then_upper_ts))
          = map (\<lambda>f. f\<lparr>content := Some ''x''\<rparr>) (take 12 readmes_then_upper_ts)"
    using selection_loop_exhausted [OF ex, where rest = "[upper_ts]"] lz
    by (subst fo, subst sp) (simp add: selection_loop_append rc del: selection_loop_Cons)
  have so: "sorted (map getFilePriority
              (map (\<lambda>f. f\<lparr>content := Some ''x''\<rparr>) (take 12 readmes_then_upper_ts)))"
    by (simp add: readmes_then_upper_ts_def pr')
  have out: "fst (selectRepoContents (text_endpoint ''x'') ''acme'' ''widget'' ''main'' [] []
                       readmes_then_upper_ts)
          = map (\<lambda>f. f\<lparr>content := Some ''x''\<rparr>) (take 12 readmes_then_upper_ts)"
    by (simp add: selectRepoContents_def Let_def loop Array_sort_sorted_id [OF so])
  have paths: "map path (map (\<lambda>f. f\<lparr>content := Some ''x''\<rparr>) (take 12 readmes_then_upper_ts))
       = [''a/README.md'', ''b/README.md'', ''c/README.md'', ''d/README.md'', ''e/README.md'',
          ''f/README.md'', ''g/README.md'', ''h/README.md'', ''i/README.md'', ''j/README.md'',
          ''k/README.md'', ''l/README.md'']"
    by (simp add: readmes_then_upper_ts_def mk_file_def)
  from fo sp have fo': "filesOnly readmes_then_upper_ts = take 12 readmes_then_upper_ts @ [upper_ts]"
    by simp
  from pz fo' cnt lz ll out paths show ?thesis by simp
qed

subsection \<open>The listing and its fallback\<close>

lemma fetchTree_nonSuccess:
  assumes "tree_api net tr (treeUrl owner repo b) h = Resolved tresp" "\<not> ok tresp"
  shows "snd (fetchTree net tr owner repo b h) = tr @ [treeUrl owner repo b, contentsUrl owner repo b]"
    and "noListing (contents_api net (tr @ [treeUrl owner repo b]) (contentsUrl owner repo b) h)
           \<Longrightarrow> isl (fst (fetchTree net tr owner repo b h))"
  using assms
  by (auto simp: fetchTree_def noListing_def split: fetch_result.splits sum.splits)

lemma fetchTree_noListing:
  assumes "noListing (tree_api net tr (treeUrl owner repo b) h)"
    and "nonSuccess (tree_api net tr (treeUrl owner repo b) h) \<longrightarrow>
           noListing (contents_api net (tr @ [treeUrl owner repo b]) (contentsUrl owner repo b) h)"
  shows "isl (fst (fetchTree net tr owner repo b h))"
  using assms
  by (auto simp: fetchTree_def noListing_def nonSuccess_def split: fetch_result.splits sum.splits)

lemma fetchTree_rejected:
  assumes "tree_api net tr (treeUrl owner repo b) h = Rejected msg"
  shows "fetchTree net tr owner repo b h
           = (Inl (''Exception fetching repository tree structure: '' @ msg),
              tr @ [treeUrl owner repo b])"
  using assms by (simp add: fetchTree_def)

lemma selection_step_trace:
  "prefix (trace s) (trace (selection_step fetch owner repo b h s f))"
  by (auto simp: selection_step_def fetchFileContent_def Let_def
           split: prod.splits option.splits fetch_result.splits sum.splits if_splits)

lemma selection_loop_trace:
  "prefix (trace s) (trace (selection_loop fetch owner repo b h s fs))"
proof (induction fs arbitrary: s)
  case Nil
  show ?case by simp
next
  case (Cons f fs)
  have "prefix (trace s) (trace (selection_step fetch owner repo b h s f))"
    by (rule selection_step_trace)
  also have "prefix \<dots> (trace (selection_loop fetch owner repo b h
                                   (selection_step fetch owner repo b h s f) fs))"
    by (rule Cons.IH)
  finally show ?case by simp
qed

lemma selectRepoContents_trace:
  "prefix tr (snd (selectRepoContents fetch owner repo b h tr allFiles))"
  using selection_loop_trace [of "initial_state tr" fetch owner repo b h "filesOnly allFiles"]
  by (simp add: selectRepoContents_def Let_def initial_state_def)

lemma fetchContributors_trace:
  "prefix tr (snd (fetchContributors net tr owner repo h))"
  by (auto simp: fetchContributors_def split: fetch_result.splits sum.splits option.splits)

lemma fetchRepoInfoTool_after_details:
  assumes "parseRepoUrl URL_pathname repoUrl = Inr (owner, repo)"
    and "repo_api net [] (repoDetailsUrl owner repo) (requestHeaders githubToken) = Resolved dr"
    and "ok dr" and "body dr = Inr details"
  shows "fetchRepoInfoTool URL_pathname net repoUrl githubToken =
     (case fetchTree net [repoDetailsUrl owner repo] owner repo (defaultBranchOf details)
             (requestHeaders githubToken) of
        (Inl msg, tr) \<Rightarrow> (errorOutput msg repoUrl githubToken, tr)
      | (Inr allFilesFromTree, tr) \<Rightarrow>
          (case selectRepoContents (raw_api net) owner repo (defaultBranchOf details)
                  (requestHeaders githubToken) tr allFilesFromTree of
             (contents, tr2) \<Rightarrow>
               (case fetchContributors net tr2 owner repo (requestHeaders githubToken) of
                  (contributorsList, tr3) \<Rightarrow>
                    (\<lparr>out_repoName = repo_name details,
                      out_description = repo_description details,
                      out_mainLanguage = repo_language details,
                      out_repoContents = (if contents \<noteq> [] then Some contents else None),
                      out_contributors = contributorsList,
                      out_error = None,
                      out_toolInput = Some (repoUrl, githubToken)\<rparr>,
                     tr3))))"
  using assms by (simp add: fetchRepoInfoTool_def Let_def)

lemma fetchRepoInfoTool_trace:
  assumes "parseRepoUrl URL_pathname repoUrl = Inr (owner, repo)"
    and "repo_api net [] (repoDetailsUrl owner repo) (requestHeaders githubToken) = Resolved dr"
    and "ok dr" and "body dr = Inr details"
  shows "prefix (snd (fetchTree net [repoDetailsUrl owner repo] owner repo (defaultBranchOf details)
                        (requestHeaders githubToken)))
                (snd (fetchRepoInfoTool URL_pathname net repoUrl githubToken))"
proof (cases "fetchTree net [repoDetailsUrl owner repo] owner repo (defaultBranchOf details)
                (requestHeaders githubToken)")
  case (Pair res tr)
  show ?thesis
  proof (cases res)
    case (Inl msg)
    then show ?thesis
      by (simp add: fetchRepoInfoTool_after_details [OF assms] Pair)
  next
    case (Inr fs)
    obtain contents tr2 where c: "selectRepoContents (raw_api net) owner repo (defaultBranchOf details)
                  (requestHeaders githubToken) tr fs = (contents, tr2)"
      by (metis surj_pair)
    obtain cl tr3 where d: "fetchContributors net tr2 owner repo (requestHeaders githubToken) = (cl, tr3)"
      by (metis surj_pair)
    have "prefix tr tr2"
      using selectRepoContents_trace [of tr "raw_api net" owner repo "defaultBranchOf details"
               "requestHeaders githubToken" fs] c by simp
    moreover have "prefix tr2 tr3"
      using fetchContributors_trace [of tr2 net owner repo "requestHeaders githubToken"] d by simp
    ultimately have "prefix tr tr3" by (rule prefix_order.trans)
    then show ?thesis
      by (simp add: fetchRepoInfoTool_after_details [OF assms] Pair Inr c d)
  qed
qed

lemma fetchRepoInfoTool_no_listing:
  assumes "parseRepoUrl URL_pathname repoUrl = Inr (owner, repo)"
    and "repo_api net [] (repoDetailsUrl owner repo) (requestHeaders githubToken) = Resolved dr"
    and "ok dr" and "body dr = Inr details"
    and "isl (fst (fetchTree net [repoDetailsUrl owner repo] owner repo (defaultBranchOf details)
                     (requestHeaders githubToken)))"
  shows "out_error (fst (fetchRepoInfoTool URL_pathname net repoUrl githubToken)) \<noteq> None
         \<and> out_repoContents (fst (fetchRepoInfoTool URL_pathname net repoUrl githubToken)) = None
         \<and> snd (fetchRepoInfoTool URL_pathname net repoUrl githubToken)
             = snd (fetchTree net [repoDetailsUrl owner repo] owner repo (defaultBranchOf details)
                      (requestHeaders githubToken))"
  using assms(5)
  by (cases "fetchTree net [repoDetailsUrl owner repo] owner repo (defaultBranchOf details)
                (requestHeaders githubToken)")
     (auto simp: fetchRepoInfoTool_after_details [OF assms(1-4)] errorOutput_def isl_def)

text \<open>
  A rejected request for the recursive tree, an exception of the transport and not a
  status, ends the run with the error of the \<open>catch\<close> block; the shallow listing is not
  requested.
\<close>

lemma tree_rejected_no_fallback:
  assumes "parseRepoUrl URL_pathname repoUrl = Inr (owner, repo)"
    and "repo_api net [] (repoDetailsUrl owner repo) (requestHeaders githubToken) = Resolved dr"
    and "ok dr" and "body dr = Inr details"
    and "tree_api net [repoDetailsUrl owner repo] (treeUrl owner repo (defaultBranchOf details))
           (requestHeaders githubToken) = Rejected msg"
  shows "fetchRepoInfoTool URL_pathname net repoUrl githubToken
           = (errorOutput (''Exception fetching repository tree structure: '' @ msg)
                repoUrl githubToken,
              [repoDetailsUrl owner repo, treeUrl owner repo (defaultBranchOf details)])"
  by (simp add: fetchRepoInfoTool_after_details [OF assms(1-4)] fetchTree_rejected [OF assms(5)])

text \<open>
  Claim C9, as the code has it. In a run that reaches the listing, when the request for the
  recursive tree is answered with a status that is not a success, the next request of the run is the one
  for the shallow top-level listing, made before any result is returned; and when that
  second attempt fails as well, by a rejection, a status that is not a success or a body
  that cannot be read, the run ends there with the error of the result set and no
  \<open>repoContents\<close>.
\<close>

theorem fallback_before_failure:
  assumes "parseRepoUrl URL_pathname repoUrl = Inr (owner, repo)"
    and "repo_api net [] (repoDetailsUrl owner repo) (requestHeaders githubToken) = Resolved dr"
    and "ok dr" and "body dr = Inr details"
    and "tree_api net [repoDetailsUrl owner repo] (treeUrl owner repo (defaultBranchOf details))
           (requestHeaders githubToken) = Resolved tresp"
    and "\<not> ok tresp"
  shows "prefix [repoDetailsUrl owner repo, treeUrl owner repo (defaultBranchOf details),
                 contentsUrl owner repo (defaultBranchOf details)]
           (snd (fetchRepoInfoTool URL_pathname net repoUrl githubToken))
         \<and> (noListing (contents_api net
                          [repoDetailsUrl owner repo, treeUrl owner repo (defaultBranchOf details)]
                          (contentsUrl owner repo (defaultBranchOf details))
                          (requestHeaders githubToken)) \<longrightarrow>
              out_error (fst (fetchRepoInfoTool URL_pathname net repoUrl githubToken)) \<noteq> None
              \<and> out_repoContents (fst (fetchRepoInfoTool URL_pathname net repoUrl githubToken)) = None
              \<and> snd (fetchRepoInfoTool URL_pathname net repoUrl githubToken)
                  = [repoDetailsUrl owner repo, treeUrl owner repo (defaultBranchOf details),
                     contentsUrl owner repo (defaultBranchOf details)])"
proof -
  note t = fetchTree_nonSuccess [OF assms(5,6)]
  have tr: "snd (fetchTree net [repoDetailsUrl owner repo] owner repo (defaultBranchOf details)
                   (requestHeaders githubToken))
              = [repoDetailsUrl owner repo, treeUrl owner repo (defaultBranchOf details),
                 contentsUrl owner repo (defaultBranchOf details)]"
    using t(1) by simp
  have 1: "prefix [repoDetailsUrl owner repo, treeUrl owner repo (defaultBranchOf details),
                 contentsUrl owner repo (defaultBranchOf details)]
           (snd (fetchRepoInfoTool URL_pathname net repoUrl githubToken))"
    using fetchRepoInfoTool_trace [OF assms(1-4)] tr by simp
  have 2: "out_error (fst (fetchRepoInfoTool URL_pathname net repoUrl githubToken)) \<noteq> None
              \<and> out_repoContents (fst (fetchRepoInfoTool URL_pathname net repoUrl githubToken)) = None
              \<and> snd (fetchRepoInfoTool URL_pathname net repoUrl githubToken)
                  = [repoDetailsUrl owner repo, treeUrl owner repo (defaultBranchOf details),
                     contentsUrl owner repo (defaultBranchOf details)]"
    if "noListing (contents_api net
                          [repoDetailsUrl owner repo, treeUrl owner repo (defaultBranchOf details)]
                          (contentsUrl owner repo (defaultBranchOf details))
                          (requestHeaders githubToken))"
  proof -
    have "isl (fst (fetchTree net [repoDetailsUrl owner repo] owner repo (defaultBranchOf details)
                     (requestHeaders githubToken)))"
      using t(2) that by simp
    from fetchRepoInfoTool_no_listing [OF assms(1-4) this] tr show ?thesis by simp
  qed
  from 1 2 show ?thesis by blast
qed

lemma parse_acme_widget:
  "parseRepoUrl github_pathname ''https://github.com/acme/widget'' = Inr (''acme'', ''widget'')"
  by (simp add: parseRepoUrl_def github_pathname_def strip_git_def suffix_to_prefix)

theorem fallback_before_failure_witness:
  "parseRepoUrl github_pathname ''https://github.com/acme/widget'' = Inr (''acme'', ''widget'')
   \<and> tree_api failing_net [repoDetailsUrl ''acme'' ''widget'']
         (treeUrl ''acme'' ''widget'' ''main'') (requestHeaders None)
       = Resolved \<lparr>status = 500, statusText = ''Internal Server Error'',
                    body = Inl ''Unexpected end of JSON input''\<rparr>
   \<and> contents_api failing_net
         [repoDetailsUrl ''acme'' ''widget'', treeUrl ''acme'' ''widget'' ''main'']
         (contentsUrl ''acme'' ''widget'' ''main'') (requestHeaders None)
       = Resolved \<lparr>status = 403, statusText = ''Forbidden'',
                    body = Inl ''Unexpected end of JSON input''\<rparr>
   \<and> out_error (fst (fetchRepoInfoTool github_pathname failing_net
                        ''https://github.com/acme/widget'' None)) \<noteq> None
   \<and> out_repoContents (fst (fetchRepoInfoTool github_pathname failing_net
                               ''https://github.com/acme/widget'' None)) = None
   \<and> snd (fetchRepoInfoTool github_pathname failing_net ''https://github.com/acme/widget'' None)
       = [''https://api.github.com/repos/acme/widget'',
          ''https://api.github.com/repos/acme/widget/git/trees/main?recursive=true'',
          ''https://api.github.com/repos/acme/widget/contents?ref=main'']"
proof -
  let ?details = "\<lparr>repo_name = Some ''widget'', repo_description = None,
                    repo_language = None, default_branch = Some ''main''\<rparr>"
  let ?dr = "\<lparr>status = 200, statusText = ''OK'', body = Inr ?details\<rparr>"
  let ?tresp = "\<lparr>status = 500, statusText = ''Internal Server Error'',
                  body = (Inl ''Unexpected end of JSON input'' :: string + TreeData)\<rparr>"
  have b: "defaultBranchOf ?details = ''main''"
    by (simp add: defaultBranchOf_def)
  have d: "repo_api failing_net [] (repoDetailsUrl ''acme'' ''widget'') (requestHeaders None)
             = Resolved ?dr"
    by (simp add: failing_net_def)
  have k: "ok ?dr" by (simp add: ok_def)
  have bd: "body ?dr = Inr ?details" by simp
  have t: "tree_api failing_net [repoDetailsUrl ''acme'' ''widget'']
             (treeUrl ''acme'' ''widget'' (defaultBranchOf ?details)) (requestHeaders None)
             = Resolved ?tresp"
    by (simp add: failing_net_def)
  have nk: "\<not> ok ?tresp" by (simp add: ok_def)
  have ns: "tree_api failing_net [repoDetailsUrl ''acme'' ''widget'']
         (treeUrl ''acme'' ''widget'' ''main'') (requestHeaders None)
       = Resolved \<lparr>status = 500, statusText = ''Internal Server Error'',
                    body = Inl ''Unexpected end of JSON input''\<rparr>"
    by (simp add: failing_net_def)
  have cs: "contents_api failing_net
         [repoDetailsUrl ''acme'' ''widget'', treeUrl ''acme'' ''widget'' ''main'']
         (contentsUrl ''acme'' ''widget'' ''main'') (requestHeaders None)
       = Resolved \<lparr>status = 403, statusText = ''Forbidden'',
                    body = Inl ''Unexpected end of JSON input''\<rparr>"
    by (simp add: failing_net_def)
  have nl: "noListing (contents_api failing_net
                  [repoDetailsUrl ''acme'' ''widget'', treeUrl ''acme'' ''widget'' ''main'']
                  (contentsUrl ''acme'' ''widget'' ''main'') (requestHeaders None))"
    by (simp add: noListing_def failing_net_def ok_def)
  have urls: "[repoDetailsUrl ''acme'' ''widget'', treeUrl ''acme'' ''widget'' ''main'',
               contentsUrl ''acme'' ''widget'' ''main'']
       = [''https://api.github.com/repos/acme/widget'',
          ''https://api.github.com/repos/acme/widget/git/trees/main?recursive=true'',
          ''https://api.github.com/repos/acme/widget/contents?ref=main'']"
    by (simp add: repoDetailsUrl_def treeUrl_def contentsUrl_def GITHUB_API_BASE_URL_def)
  from fallback_before_failure [OF parse_acme_widget d k bd t nk] nl
  have "out_error (fst (fetchRepoInfoTool github_pathname failing_net
                        ''https://github.com/acme/widget'' None)) \<noteq> None
   \<and> out_repoContents (fst (fetchRepoInfoTool github_pathname failing_net
                               ''https://github.com/acme/widget'' None)) = None
   \<and> snd (fetchRepoInfoTool github_pathname failing_net ''https://github.com/acme/widget'' None)
       = [repoDetailsUrl ''acme'' ''widget'', treeUrl ''acme'' ''widget'' ''main'',
               contentsUrl ''acme'' ''widget'' ''main'']"
    by (simp add: b)
  with parse_acme_widget ns cs urls show ?thesis by simp
qed

text \<open>
  Against claim C9 as it is written. The request for the recursive tree is rejected, an
  exception of the transport: the run ends with the error of the \<open>catch\<close> block after two
  requests, for the details and for the tree; the shallow listing, which this network would
  answer, is not requested.
\<close>

theorem tree_rejected_counterexample:
  "tree_api rejecting_net [repoDetailsUrl ''acme'' ''widget'']
       (treeUrl ''acme'' ''widget'' ''main'') (requestHeaders None) = Rejected ''fetch failed''
   \<and> fetchRepoInfoTool github_pathname rejecting_net ''https://github.com/acme/widget'' None
       = (errorOutput ''Exception fetching repository tree structure: fetch failed''
            ''https://github.com/acme/widget'' None,
          [''https://api.github.com/repos/acme/widget'',
           ''https://api.github.com/repos/acme/widget/git/trees/main?recursive=true''])"
proof -
  let ?details = "\<lparr>repo_name = Some ''widget'', repo_description = None,
                    repo_language = None, default_branch = Some ''main''\<rparr>"
  let ?dr = "\<lparr>status = 200, statusText = ''OK'', body = Inr ?details\<rparr>"
  have b: "defaultBranchOf ?details = ''main''"
    by (simp add: defaultBranchOf_def)
  have d: "repo_api rejecting_net [] (repoDetailsUrl ''acme'' ''widget'') (requestHeaders None)
             = Resolved ?dr"
    by (simp add: rejecting_net_def)
  have k: "ok ?dr" by (simp add: ok_def)
  have bd: "body ?dr = Inr ?details" by simp
  have t: "tree_api rejecting_net [repoDetailsUrl ''acme'' ''widget'']
             (treeUrl ''acme'' ''widget'' (defaultBranchOf ?details)) (requestHeaders None)
             = Rejected ''fetch failed''"
    by (simp add: rejecting_net_def)
  have urls: "[repoDetailsUrl ''acme'' ''widget'', treeUrl ''acme'' ''widget'' ''main'']
       = [''https://api.github.com/repos/acme/widget'',
          ''https://api.github.com/repos/acme/widget/git/trees/main?recursive=true'']"
    by (simp add: repoDetailsUrl_def treeUrl_def GITHUB_API_BASE_URL_def)
  from tree_rejected_no_fallback [OF parse_acme_widget d k bd t] t urls
  show ?thesis by (simp add: b)
qed

subsection \<open>The repository URL\<close>

lemma parseRepoUrl_Inr:
  assumes "parseRepoUrl URL_pathname repoUrl = Inr (owner, repo)"
  shows "owner \<noteq> [] \<and> (\<exists>seg. seg \<noteq> [] \<and> repo = strip_git seg)"
proof -
  from assms obtain pathname where p: "URL_pathname repoUrl = Inr pathname"
    by (auto simp: parseRepoUrl_def split: sum.splits)
  define parts where "parts = filter (\<lambda>p. p \<noteq> []) (split_on CHR ''/'' pathname)"
  from assms p have l: "\<not> length parts < 2"
    and o: "owner = parts ! 0" and r: "repo = strip_git (parts ! 1)"
    by (auto simp: parseRepoUrl_def parts_def Let_def split: if_splits)
  have "\<forall>x\<in>set parts. x \<noteq> []" by (auto simp: parts_def)
  moreover from l have l0: "0 < length parts" and l1: "1 < length parts" by linarith+
  have "parts ! 0 \<in> set parts" by (rule nth_mem [OF l0])
  moreover have "parts ! 1 \<in> set parts" by (rule nth_mem [OF l1])
  ultimately show ?thesis using o r by auto
qed

lemma parseRepoUrl_fails_fast:
  assumes "URL_pathname repoUrl = Inr pathname"
    and "length (filter (\<lambda>p. p \<noteq> []) (split_on CHR ''/'' pathname)) < 2"
  shows "parseRepoUrl URL_pathname repoUrl
           = Inl ''Invalid GitHub repository URL format. Could not extract owner/repo.''"
  using assms by (simp add: parseRepoUrl_def)

text \<open>
  Claim C4 at the URL \<open>https://github.com/acme/.git\<close>. The path has the two segments
  \<open>acme\<close> and \<open>.git\<close>, none of them empty, so the check of the segments passes; the suffix
  is stripped after the check, and the repository name of the result is empty.
\<close>

theorem parse_dot_git_empty_repo:
  "github_pathname ''https://github.com/acme/.git'' = Inr ''/acme/.git''
   \<and> filter (\<lambda>p. p \<noteq> []) (split_on CHR ''/'' ''/acme/.git'') = [''acme'', ''.git'']
   \<and> parseRepoUrl github_pathname ''https://github.com/acme/.git'' = Inr (''acme'', [])"
  by (simp add: parseRepoUrl_def github_pathname_def strip_git_def suffix_to_prefix)

end
